theory Spec2Isabelle
  imports Complex_Main
begin

section \<open>JavaScript strings\<close>

text \<open>
  A string is its sequence of UTF-16 code units, as in the language, and a code unit is
  its high and its low byte: the character \<open>c\<close> of ASCII (and of Latin-1) is
  \<open>CU 0x00 c\<close>, the rupee sign U+20B9 is \<open>CU 0x20 0xB9\<close>. \<open>length\<close>,
  \<open>substring\<close>, \<open>split\<close>, \<open>includes\<close> and the regular expressions (none of the
  source has the \<open>u\<close> flag) all work on code units.
\<close>

datatype cunit = CU char char

type_synonym jsstring = "cunit list"

primrec unit_val :: "cunit \<Rightarrow> nat" where
  "unit_val (CU h l) = 256 * of_char h + of_char l"

definition asc :: "char \<Rightarrow> cunit" where
  "asc c = CU (CHR 0x00) c"

text \<open>A string literal of the source (all of them are ASCII).\<close>

definition str :: "string \<Rightarrow> jsstring" where
  "str s = map asc s"

definition is_digit :: "cunit \<Rightarrow> bool" where
  "is_digit c = (c \<in> set (str ''0123456789''))"

definition is_upper :: "cunit \<Rightarrow> bool" where
  "is_upper c = (c \<in> set (str ''ABCDEFGHIJKLMNOPQRSTUVWXYZ''))"

definition is_lower :: "cunit \<Rightarrow> bool" where
  "is_lower c = (c \<in> set (str ''abcdefghijklmnopqrstuvwxyz''))"

text \<open>
  The white space and the line terminators of the language, which are what \<open>\s\<close>
  matches, what \<open>trim\<close> strips and what \<open>parseFloat\<close> skips: U+0009 to U+000D,
  U+0020, U+00A0, U+1680, U+2000 to U+200A, U+2028, U+2029, U+202F, U+205F, U+3000
  and U+FEFF.
\<close>

definition white_space :: "cunit list" where
  "white_space =
     [CU (CHR 0x00) (CHR 0x09), CU (CHR 0x00) (CHR 0x0A), CU (CHR 0x00) (CHR 0x0B),
      CU (CHR 0x00) (CHR 0x0C), CU (CHR 0x00) (CHR 0x0D), CU (CHR 0x00) (CHR 0x20),
      CU (CHR 0x00) (CHR 0xA0), CU (CHR 0x16) (CHR 0x80),
      CU (CHR 0x20) (CHR 0x00), CU (CHR 0x20) (CHR 0x01), CU (CHR 0x20) (CHR 0x02),
      CU (CHR 0x20) (CHR 0x03), CU (CHR 0x20) (CHR 0x04), CU (CHR 0x20) (CHR 0x05),
      CU (CHR 0x20) (CHR 0x06), CU (CHR 0x20) (CHR 0x07), CU (CHR 0x20) (CHR 0x08),
      CU (CHR 0x20) (CHR 0x09), CU (CHR 0x20) (CHR 0x0A),
      CU (CHR 0x20) (CHR 0x28), CU (CHR 0x20) (CHR 0x29), CU (CHR 0x20) (CHR 0x2F),
      CU (CHR 0x20) (CHR 0x5F), CU (CHR 0x30) (CHR 0x00), CU (CHR 0xFE) (CHR 0xFF)]"

definition is_space :: "cunit \<Rightarrow> bool" where
  "is_space c = (c \<in> set white_space)"

text \<open>\<open>\w\<close>: without the \<open>u\<close> flag it is ASCII only.\<close>

definition is_word :: "cunit \<Rightarrow> bool" where
  "is_word c = (is_lower c \<or> is_upper c \<or> is_digit c \<or> c = asc CHR ''_'')"

text \<open>The case pairs of ASCII; every other code unit is left as it is.\<close>

definition lowerChar :: "cunit \<Rightarrow> cunit" where
  "lowerChar c =
     (case map_of (zip (str ''ABCDEFGHIJKLMNOPQRSTUVWXYZ'') (str ''abcdefghijklmnopqrstuvwxyz'')) c of
        Some l \<Rightarrow> l | None \<Rightarrow> c)"

definition upperChar :: "cunit \<Rightarrow> cunit" where
  "upperChar c =
     (case map_of (zip (str ''abcdefghijklmnopqrstuvwxyz'') (str ''ABCDEFGHIJKLMNOPQRSTUVWXYZ'')) c of
        Some u \<Rightarrow> u | None \<Rightarrow> c)"

definition startsWith :: "jsstring \<Rightarrow> jsstring \<Rightarrow> bool" where
  "startsWith s p = (take (length p) s = p)"

fun str_includes :: "jsstring \<Rightarrow> jsstring \<Rightarrow> bool" where
  "str_includes [] p = (p = [])"
| "str_includes (c # cs) p = (startsWith (c # cs) p \<or> str_includes cs p)"

definition trim :: "jsstring \<Rightarrow> jsstring" where
  "trim s = rev (dropWhile is_space (rev (dropWhile is_space s)))"

text \<open>\<open>s.substring(0, n)\<close>\<close>

definition substring0 :: "nat \<Rightarrow> jsstring \<Rightarrow> jsstring" where
  "substring0 n s = take n s"

text \<open>\<open>s.split(c)\<close> for a one-character separator: never an empty array.\<close>

fun split :: "cunit \<Rightarrow> jsstring \<Rightarrow> jsstring list" where
  "split sep [] = [[]]"
| "split sep (c # cs) =
     (if c = sep then [] # split sep cs
      else (case split sep cs of p # ps \<Rightarrow> (c # p) # ps | [] \<Rightarrow> [[c]]))"

section \<open>Regular expressions\<close>

text \<open>
  The regular expressions of the source are terms of \<open>regex\<close>, matched the way a
  backtracking engine does: \<open>ms\<close> lists the states a pattern can end in from one start
  state, in the engine's order of preference (greedy: longest first; lazy: shortest
  first; alternatives left to right), and a search takes the first state of the
  leftmost start that has one. A class item is an ASCII character, any code unit, an
  ASCII range, \<open>\d\<close>, \<open>\s\<close> or \<open>\w\<close>.
\<close>

datatype citem = Ch char | Cu cunit | Rng char char | Digit | Space | Word

datatype regex =
    Chr char
  | Cls "citem list"
  | NCls "citem list"
  | Seq regex regex
  | Alt regex regex
  | Rep nat "nat option" bool regex
  | Grp nat regex
  | Bol
  | Eol
  | WordB

text \<open>
  A matcher state: the text already passed (reversed), the text still ahead, and the
  capture groups set so far (latest first).
\<close>

record mstate =
  seen :: jsstring
  rest :: jsstring
  caps :: "(nat \<times> jsstring) list"

fun item_match :: "citem \<Rightarrow> cunit \<Rightarrow> bool" where
  "item_match (Ch x) c = (c = asc x)"
| "item_match (Cu u) c = (c = u)"
| "item_match (Rng a b) c = ((of_char a :: nat) \<le> unit_val c \<and> unit_val c \<le> (of_char b :: nat))"
| "item_match Digit c = is_digit c"
| "item_match Space c = is_space c"
| "item_match Word c = is_word c"

text \<open>
  With the \<open>i\<close> flag a character matches when either of its cases does. Without the
  \<open>u\<close> flag the engine compares upper cases and leaves a code unit from 128 on alone
  when its upper case is ASCII, so only the ASCII letters have two cases here (the
  currency signs of the source have none).
\<close>

definition cls_match :: "bool \<Rightarrow> citem list \<Rightarrow> cunit \<Rightarrow> bool" where
  "cls_match ci items c =
     ((\<exists>i \<in> set items. item_match i c) \<or>
      (ci \<and> (\<exists>i \<in> set items. item_match i (lowerChar c) \<or> item_match i (upperChar c))))"

definition step :: "(cunit \<Rightarrow> bool) \<Rightarrow> mstate \<Rightarrow> mstate list" where
  "step p st =
     (case rest st of
        [] \<Rightarrow> []
      | c # cs \<Rightarrow> if p c then [st\<lparr>seen := c # seen st, rest := cs\<rparr>] else [])"

text \<open>
  \<open>r{mn,mx}\<close>, greedy or lazy. An iteration that is not required and consumes nothing is
  dropped, as the engine does, so \<open>length (rest st) + mn\<close> iterations are all there can be.
\<close>

primrec rep :: "(mstate \<Rightarrow> mstate list) \<Rightarrow> nat \<Rightarrow> nat \<Rightarrow> nat option \<Rightarrow> bool \<Rightarrow> mstate \<Rightarrow> mstate list" where
  "rep f 0 mn mx g st = (if mn = 0 then [st] else [])"
| "rep f (Suc n) mn mx g st =
     (if mx = Some 0 then [st]
      else let more = concat (map (\<lambda>st'. if mn = 0 \<and> length (rest st) \<le> length (rest st') then []
                                          else rep f n (mn - 1) (map_option (\<lambda>k. k - 1) mx) g st') (f st))
           in if 0 < mn then more else if g then more @ [st] else st # more)"

definition at_boundary :: "mstate \<Rightarrow> bool" where
  "at_boundary st = ((case seen st of [] \<Rightarrow> False | c # _ \<Rightarrow> is_word c) \<noteq>
                     (case rest st of [] \<Rightarrow> False | c # _ \<Rightarrow> is_word c))"

primrec ms :: "bool \<Rightarrow> regex \<Rightarrow> mstate \<Rightarrow> mstate list" where
  "ms ci (Chr x) st = step (\<lambda>c. if ci then lowerChar c = lowerChar (asc x) else c = asc x) st"
| "ms ci (Cls items) st = step (cls_match ci items) st"
| "ms ci (NCls items) st = step (\<lambda>c. \<not> cls_match ci items c) st"
| "ms ci (Seq a b) st = concat (map (ms ci b) (ms ci a st))"
| "ms ci (Alt a b) st = ms ci a st @ ms ci b st"
| "ms ci (Rep mn mx g r) st = rep (ms ci r) (length (rest st) + mn) mn mx g st"
| "ms ci (Grp i r) st =
     map (\<lambda>st'. st'\<lparr>caps := (i, take (length (rest st) - length (rest st')) (rest st)) # caps st'\<rparr>)
       (ms ci r st)"
| "ms ci Bol st = (if seen st = [] then [st] else [])"
| "ms ci Eol st = (if rest st = [] then [st] else [])"
| "ms ci WordB st = (if at_boundary st then [st] else [])"

text \<open>The leftmost match: the text before it (reversed) and the state it ends in.\<close>

fun rx_search :: "bool \<Rightarrow> regex \<Rightarrow> jsstring \<Rightarrow> jsstring \<Rightarrow> (jsstring \<times> mstate) option" where
  "rx_search ci r bef rst =
     (case ms ci r \<lparr>seen = bef, rest = rst, caps = []\<rparr> of
        st # _ \<Rightarrow> Some (bef, st)
      | [] \<Rightarrow> (case rst of [] \<Rightarrow> None | c # cs \<Rightarrow> rx_search ci r (c # bef) cs))"

text \<open>The number of capture groups of a pattern (they are numbered from 1).\<close>

primrec ngroups :: "regex \<Rightarrow> nat" where
  "ngroups (Chr x) = 0"
| "ngroups (Cls items) = 0"
| "ngroups (NCls items) = 0"
| "ngroups (Seq a b) = max (ngroups a) (ngroups b)"
| "ngroups (Alt a b) = max (ngroups a) (ngroups b)"
| "ngroups (Rep mn mx g r) = ngroups r"
| "ngroups (Grp i r) = max i (ngroups r)"
| "ngroups Bol = 0"
| "ngroups Eol = 0"
| "ngroups WordB = 0"

text \<open>
  \<open>s.match(re)\<close> without the \<open>g\<close> flag: \<open>None\<close> is \<open>null\<close>; otherwise the array of the
  matched text (index 0) and of the groups (\<open>None\<close> for a group that took no part).
\<close>

definition rx_match :: "bool \<Rightarrow> regex \<Rightarrow> jsstring \<Rightarrow> jsstring option list option" where
  "rx_match ci r s =
     (case rx_search ci r [] s of
        None \<Rightarrow> None
      | Some (bef, st) \<Rightarrow>
          Some (map (\<lambda>i. if i = 0 then Some (rev (take (length (seen st) - length bef) (seen st)))
                         else map_of (caps st) i) [0..<Suc (ngroups r)]))"

definition rx_test :: "bool \<Rightarrow> regex \<Rightarrow> jsstring \<Rightarrow> bool" where
  "rx_test ci r s = (rx_search ci r [] s \<noteq> None)"

text \<open>\<open>s.replace(re, t)\<close> without the \<open>g\<close> flag: the first match only.\<close>

definition replace_first :: "bool \<Rightarrow> regex \<Rightarrow> jsstring \<Rightarrow> jsstring \<Rightarrow> jsstring" where
  "replace_first ci r t s =
     (case rx_search ci r [] s of None \<Rightarrow> s | Some (bef, st) \<Rightarrow> rev bef @ t @ rest st)"

text \<open>
  \<open>s.replace(re, t)\<close> with the \<open>g\<close> flag: every match, left to right, none overlapping;
  after an empty match the scan moves one character on. The first argument bounds the
  number of scan positions.
\<close>

primrec gsub :: "nat \<Rightarrow> bool \<Rightarrow> regex \<Rightarrow> jsstring \<Rightarrow> jsstring \<Rightarrow> jsstring \<Rightarrow> jsstring" where
  "gsub 0 ci r t bef rst = rst"
| "gsub (Suc n) ci r t bef rst =
     (case ms ci r \<lparr>seen = bef, rest = rst, caps = []\<rparr> of
        st # _ \<Rightarrow>
          if length (rest st) < length rst then t @ gsub n ci r t (seen st) (rest st)
          else t @ (case rst of [] \<Rightarrow> [] | c # cs \<Rightarrow> c # gsub n ci r t (c # bef) cs)
      | [] \<Rightarrow> (case rst of [] \<Rightarrow> [] | c # cs \<Rightarrow> c # gsub n ci r t (c # bef) cs))"

definition replace_all :: "bool \<Rightarrow> regex \<Rightarrow> jsstring \<Rightarrow> jsstring \<Rightarrow> jsstring" where
  "replace_all ci r t s = gsub (Suc (length s)) ci r t [] s"

text \<open>Shorthands for writing the patterns of the source.\<close>

definition lit :: "string \<Rightarrow> regex" where
  "lit s = foldr Seq (map Chr (butlast s)) (Chr (last s))"

definition seqs :: "regex list \<Rightarrow> regex" where
  "seqs rs = foldr Seq (butlast rs) (last rs)"

definition alts :: "regex list \<Rightarrow> regex" where
  "alts rs = foldr Alt (butlast rs) (last rs)"

abbreviation rplus :: "regex \<Rightarrow> regex" where "rplus r \<equiv> Rep 1 None True r"
abbreviation rstar :: "regex \<Rightarrow> regex" where "rstar r \<equiv> Rep 0 None True r"
abbreviation ropt :: "regex \<Rightarrow> regex" where "ropt r \<equiv> Rep 0 (Some 1) True r"
abbreviation rplus_lazy :: "regex \<Rightarrow> regex" where "rplus_lazy r \<equiv> Rep 1 None False r"
abbreviation rtimes :: "nat \<Rightarrow> nat \<Rightarrow> regex \<Rightarrow> regex" where "rtimes m n r \<equiv> Rep m (Some n) True r"
abbreviation ratleast :: "nat \<Rightarrow> regex \<Rightarrow> regex" where "ratleast m r \<equiv> Rep m None True r"

section \<open>Numbers and values\<close>

text \<open>
  A JavaScript \<open>number\<close> is a finite number, \<open>Infinity\<close>, \<open>-Infinity\<close> or \<open>NaN\<close>. The
  finite ones are exact here (a \<^typ>\<open>real\<close>, or an \<^typ>\<open>int\<close> once the number went
  through \<open>Math.round\<close>): the rounding and the range of IEEE doubles are not modelled.
\<close>

datatype 'a ext = Fin 'a | PInf | NInf | NaN

type_synonym jsnum = "real ext"

text \<open>\<open>x * k\<close> for a constant \<open>k > 0\<close>, \<open>Math.round\<close> (half up, as \<^const>\<open>round\<close> is),
  \<open>Math.min\<close> of two numbers, \<open>x > 0\<close> and \<open>x < 0\<close>.\<close>

definition scale :: "jsnum \<Rightarrow> real \<Rightarrow> jsnum" where
  "scale x k = (case x of Fin v \<Rightarrow> Fin (v * k) | PInf \<Rightarrow> PInf | NInf \<Rightarrow> NInf | NaN \<Rightarrow> NaN)"

definition Math_round :: "jsnum \<Rightarrow> int ext" where
  "Math_round x = (case x of Fin v \<Rightarrow> Fin (round v) | PInf \<Rightarrow> PInf | NInf \<Rightarrow> NInf | NaN \<Rightarrow> NaN)"

definition Math_min :: "jsnum \<Rightarrow> jsnum \<Rightarrow> jsnum" where
  "Math_min x y =
     (if x = NaN \<or> y = NaN then NaN
      else if x = NInf \<or> y = NInf then NInf
      else (case x of
              Fin a \<Rightarrow> (case y of Fin b \<Rightarrow> Fin (min a b) | _ \<Rightarrow> x)
            | _ \<Rightarrow> y))"

definition positive :: "int ext \<Rightarrow> bool" where
  "positive x = (case x of Fin v \<Rightarrow> 0 < v | PInf \<Rightarrow> True | _ \<Rightarrow> False)"

definition negative :: "jsnum \<Rightarrow> bool" where
  "negative x = (case x of Fin v \<Rightarrow> v < 0 | NInf \<Rightarrow> True | _ \<Rightarrow> False)"

text \<open>
  Decimal literals: a sign, \<open>Infinity\<close> or digits with a fraction and an exponent.
  \<open>scan_decimal\<close> reads the longest literal a text starts with and returns its value
  (\<open>NaN\<close> when there is none) and the text after it.
\<close>

definition digit_val :: "cunit \<Rightarrow> nat" where
  "digit_val c = unit_val c - 48"

definition digits_val :: "jsstring \<Rightarrow> nat" where
  "digits_val ds = foldl (\<lambda>acc c. 10 * acc + digit_val c) 0 ds"

definition pow10 :: "int \<Rightarrow> real" where
  "pow10 k = (if 0 \<le> k then 10 ^ nat k else 1 / 10 ^ nat (- k))"

definition scan_exponent :: "jsstring \<Rightarrow> int \<times> jsstring" where
  "scan_exponent r =
     (case r of
        [] \<Rightarrow> (0, r)
      | c # cs \<Rightarrow>
          if c = asc CHR ''e'' \<or> c = asc CHR ''E''
          then (let neg = (case cs of d # _ \<Rightarrow> d = asc CHR ''-'' | [] \<Rightarrow> False);
                    ds = (case cs of
                            d # ds' \<Rightarrow> if d = asc CHR ''-'' \<or> d = asc CHR ''+'' then ds' else cs
                          | [] \<Rightarrow> cs);
                    ed = takeWhile is_digit ds
                in if ed = [] then (0, r)
                   else (if neg then - int (digits_val ed) else int (digits_val ed),
                         dropWhile is_digit ds))
          else (0, r))"

definition scan_decimal :: "jsstring \<Rightarrow> jsnum \<times> jsstring" where
  "scan_decimal t =
     (let neg = (case t of c # _ \<Rightarrow> c = asc CHR ''-'' | [] \<Rightarrow> False);
          u = (case t of c # cs \<Rightarrow> if c = asc CHR ''-'' \<or> c = asc CHR ''+'' then cs else t | [] \<Rightarrow> t)
      in if startsWith u (str ''Infinity'') then (if neg then NInf else PInf, drop 8 u)
         else let ip = takeWhile is_digit u;
                  r1 = dropWhile is_digit u;
                  dot = (case r1 of c # _ \<Rightarrow> c = asc CHR ''.'' | [] \<Rightarrow> False);
                  fp = (if dot then takeWhile is_digit (tl r1) else []);
                  r2 = (if dot then dropWhile is_digit (tl r1) else r1)
              in if ip = [] \<and> fp = [] then (NaN, t)
                 else let ex = scan_exponent r2;
                          v = real (digits_val (ip @ fp)) / 10 ^ length fp * pow10 (fst ex)
                      in (Fin (if neg then - v else v), snd ex))"

text \<open>\<open>parseFloat\<close>: leading white space is skipped and what follows the literal is ignored.\<close>

definition parseFloat :: "jsstring \<Rightarrow> jsnum" where
  "parseFloat s = fst (scan_decimal (dropWhile is_space s))"

text \<open>
  The conversion of a string to a number (\<open>Number(s)\<close>, and what \<open>*\<close> and \<open>Math.min\<close>
  apply to a string operand): the trimmed text must be empty (0), a hexadecimal, octal or
  binary integer, or a decimal literal, all of it.
\<close>

definition digit_of :: "nat \<Rightarrow> cunit \<Rightarrow> nat option" where
  "digit_of base c =
     (let v = (if is_digit c then unit_val c - 48
               else if c \<in> set (str ''abcdef'') then unit_val c - 87
               else if c \<in> set (str ''ABCDEF'') then unit_val c - 55
               else base)
      in if v < base then Some v else None)"

definition radix_literal :: "nat \<Rightarrow> jsstring \<Rightarrow> jsnum" where
  "radix_literal base ds =
     (if ds = [] \<or> list_ex (\<lambda>c. digit_of base c = None) ds then NaN
      else Fin (real (foldl (\<lambda>acc c. base * acc + (case digit_of base c of Some v \<Rightarrow> v | None \<Rightarrow> 0)) 0 ds)))"

definition stringToNumber :: "jsstring \<Rightarrow> jsnum" where
  "stringToNumber s =
     (let t = trim s
      in if t = [] then Fin 0
         else if startsWith t (str ''0x'') \<or> startsWith t (str ''0X'') then radix_literal 16 (drop 2 t)
         else if startsWith t (str ''0o'') \<or> startsWith t (str ''0O'') then radix_literal 8 (drop 2 t)
         else if startsWith t (str ''0b'') \<or> startsWith t (str ''0B'') then radix_literal 2 (drop 2 t)
         else (case scan_decimal t of (v, r) \<Rightarrow> if r = [] then v else NaN))"

text \<open>
  A value as \<open>JSON.parse\<close> decodes it, or read from a field that may be missing:
  \<open>undefined\<close>, \<open>null\<close>, a boolean, a number, a string, or an array or object. Of an
  array or object the source looks at nothing but the number it converts to, which
  \<open>JObj\<close> carries (0 for \<open>[]\<close>, 5 for \<open>[5]\<close>, \<open>NaN\<close> for \<open>{}\<close>).
\<close>

datatype json = JUndefined | JNull | JBool bool | JNum jsnum | JStr jsstring | JObj jsnum

text \<open>The truth value of \<open>v\<close> in \<open>!v\<close>, \<open>v ? a : b\<close> and \<open>v || d\<close>.\<close>

fun truthy :: "json \<Rightarrow> bool" where
  "truthy JUndefined = False"
| "truthy JNull = False"
| "truthy (JBool b) = b"
| "truthy (JNum x) = (x \<noteq> Fin 0 \<and> x \<noteq> NaN)"
| "truthy (JStr s) = (s \<noteq> [])"
| "truthy (JObj x) = True"

fun toNumber :: "json \<Rightarrow> jsnum" where
  "toNumber JUndefined = NaN"
| "toNumber JNull = Fin 0"
| "toNumber (JBool b) = Fin (if b then 1 else 0)"
| "toNumber (JNum x) = x"
| "toNumber (JStr s) = stringToNumber s"
| "toNumber (JObj x) = x"

text \<open>\<open>v || d\<close>\<close>

definition or_else :: "json \<Rightarrow> json \<Rightarrow> json" where
  "or_else v d = (if truthy v then v else d)"

section \<open>The platform\<close>

text \<open>
  A \<open>Date\<close> is its calendar fields in local time. The libraries and the clock the
  source calls are parameters: \<open>Date.now()\<close>, \<open>date.getTime()\<close>, the converter of
  the \<open>html-to-text\<close> package, \<open>parse\<close> of \<open>date-fns\<close> (\<open>None\<close> when the result is
  not \<open>isValid\<close>), the native \<open>new Date(v)\<close> (\<open>None\<close> likewise) and
  \<open>toLowerCase\<close> on a string that is not all ASCII.
\<close>

record jsdate =
  year :: int
  month :: nat
  day :: nat
  millis :: nat

text \<open>A \<open>Date\<close> object that may be an \<open>Invalid Date\<close> (\<open>None\<close>).\<close>

type_synonym Date = "jsdate option"

record env =
  now :: int
  getTime :: "jsdate \<Rightarrow> int"
  htmlToText :: "jsstring \<Rightarrow> jsstring"
  dfparse :: "jsstring \<Rightarrow> jsstring \<Rightarrow> jsdate option"
  nativeDate :: "json \<Rightarrow> jsdate option"
  lowerCaseUnicode :: "jsstring \<Rightarrow> jsstring"

definition toLowerCase :: "env \<Rightarrow> jsstring \<Rightarrow> jsstring" where
  "toLowerCase e s =
     (if list_all (\<lambda>c. unit_val c < 128) s then map lowerChar s else lowerCaseUnicode e s)"

text \<open>The text of a group of a match; a group that took no part reads as the empty text,
  which the source's truth tests treat alike.\<close>

definition grp :: "jsstring option list \<Rightarrow> nat \<Rightarrow> jsstring" where
  "grp m i = (if i < length m then (case m ! i of Some g \<Rightarrow> g | None \<Rightarrow> []) else [])"

section \<open>src/lib/utils/currency.ts\<close>

text \<open>The signs U+20B9, U+20AC, U+00A3 and U+00A5, and
  \<^verbatim>\<open>/[<rupee>$<euro><pound><yen>Rs\.INR]/gi\<close>: the class holds the dot.\<close>

definition rupee :: cunit where
  "rupee = CU (CHR 0x20) (CHR 0xB9)"

definition euro :: cunit where
  "euro = CU (CHR 0x20) (CHR 0xAC)"

definition pound :: cunit where
  "pound = CU (CHR 0x00) (CHR 0xA3)"

definition yen :: cunit where
  "yen = CU (CHR 0x00) (CHR 0xA5)"

definition currency_symbols_re :: regex where
  "currency_symbols_re =
     Cls [Cu rupee, Ch CHR ''$'', Cu euro, Cu pound, Cu yen,
          Ch CHR ''R'', Ch CHR ''s'', Ch CHR ''.'', Ch CHR ''I'', Ch CHR ''N'', Ch CHR ''R'']"

text \<open>\<^verbatim>\<open>/^(rs|inr)/i\<close>\<close>

definition rs_prefix_re :: regex where
  "rs_prefix_re = Seq Bol (Grp 1 (Alt (lit ''rs'') (lit ''inr'')))"

text \<open>\<open>None\<close> is \<open>null\<close>.\<close>

definition parseAmount :: "jsstring \<Rightarrow> int ext option" where
  "parseAmount amountStr =
     (if amountStr = [] then None
      else let cleaned = trim (replace_all False (Cls [Space]) []
                           (replace_all False (Chr CHR '','') []
                             (replace_all True currency_symbols_re [] amountStr)));
               cleaned = trim (replace_first True rs_prefix_re [] cleaned);
               amount = parseFloat cleaned
           in if amount = NaN then None
              else Some (Math_round (scale amount 100)))"

text \<open>\<^verbatim>\<open>[\d,]+\.?\d*\<close>\<close>

definition number_re :: regex where
  "number_re = seqs [rplus (Cls [Digit, Ch CHR '','']), ropt (Chr CHR ''.''), rstar (Cls [Digit])]"

text \<open>The four patterns of \<open>extractAmount\<close>, each with its \<open>i\<close> flag:
  \<^verbatim>\<open>/Rs\.?\s*([\d,]+\.?\d*)/i\<close>, \<^verbatim>\<open>/INR\s*([\d,]+\.?\d*)/i\<close>,
  \<^verbatim>\<open>/<rupee>\s*([\d,]+\.?\d*)/\<close>, \<^verbatim>\<open>/([\d,]+\.\d{2})\b/\<close>.\<close>

definition amount_patterns :: "(bool \<times> regex) list" where
  "amount_patterns =
     [(True, seqs [lit ''Rs'', ropt (Chr CHR ''.''), rstar (Cls [Space]), Grp 1 number_re]),
      (True, seqs [lit ''INR'', rstar (Cls [Space]), Grp 1 number_re]),
      (False, seqs [Cls [Cu rupee], rstar (Cls [Space]), Grp 1 number_re]),
      (False, seqs [Grp 1 (seqs [rplus (Cls [Digit, Ch CHR '','']), Chr CHR ''.'', rtimes 2 2 (Cls [Digit])]),
                    WordB])]"

fun extractAmount_loop :: "(bool \<times> regex) list \<Rightarrow> jsstring \<Rightarrow> (int ext \<times> jsstring) option" where
  "extractAmount_loop [] text = None"
| "extractAmount_loop ((ci, pattern) # patterns) text =
     (case rx_match ci pattern text of
        None \<Rightarrow> extractAmount_loop patterns text
      | Some m \<Rightarrow>
          (case parseAmount (grp m 1) of
             None \<Rightarrow> extractAmount_loop patterns text
           | Some a \<Rightarrow>
               if positive a then Some (a, grp m 0)
               else extractAmount_loop patterns text))"

text \<open>The result is the pair \<open>(amount, raw)\<close>.\<close>

definition extractAmount :: "jsstring \<Rightarrow> (int ext \<times> jsstring) option" where
  "extractAmount text = extractAmount_loop amount_patterns text"

section \<open>src/lib/utils/html.ts\<close>

definition cleanText :: "jsstring \<Rightarrow> jsstring" where
  "cleanText text =
     trim (replace_all False (rplus (Cls [Ch CHR '' '', Ch CHR 0x09])) (str '' '')
       (replace_all False (ratleast 3 (Chr CHR 0x0A)) (str [CHR 0x0A, CHR 0x0A])
         (replace_all False (lit [CHR 0x0D, CHR 0x0A]) (str [CHR 0x0A]) text)))"

text \<open>\<^verbatim>\<open>/<[^>]+>/\<close>\<close>

definition html_tag_re :: regex where
  "html_tag_re = seqs [Chr CHR ''<'', rplus (NCls [Ch CHR ''>'']), Chr CHR ''>'']"

definition extractEmailText :: "env \<Rightarrow> jsstring \<Rightarrow> jsstring" where
  "extractEmailText e body =
     (let isHtml = rx_test False html_tag_re body
      in if isHtml then cleanText (htmlToText e body) else cleanText body)"

section \<open>src/lib/utils/date.ts\<close>

definition DATE_FORMATS :: "jsstring list" where
  "DATE_FORMATS =
     [(str ''dd-MMM-yyyy''), (str ''dd-MMM-yy''), (str ''dd/MM/yyyy''), (str ''dd-MM-yyyy''), (str ''dd/MM/yy''),
      (str ''dd-MM-yy''), (str ''yyyy-MM-dd''), (str ''MMM dd, yyyy''), (str ''dd MMM yyyy''), (str ''dd MMM yy'')]"

text \<open>The year fix of \<open>parseDate\<close>; \<open>setFullYear\<close> changes the year alone (the shifts
  are by 2000 and, inside 1900 to 1999, by 100, so a 29 February stays one).\<close>

definition fixYear :: "jsdate \<Rightarrow> jsdate" where
  "fixYear parsed =
     (let y = year parsed
      in if y < 100 then parsed\<lparr>year := 2000 + y\<rparr>
         else if y \<ge> 1900 \<and> y < 2000 then parsed\<lparr>year := y + 100\<rparr>
         else if y < 1900 then parsed\<lparr>year := y + 2000\<rparr>
         else parsed)"

fun parseDate_loop :: "env \<Rightarrow> jsstring \<Rightarrow> jsstring list \<Rightarrow> jsdate option" where
  "parseDate_loop e cleaned [] = None"
| "parseDate_loop e cleaned (fmt # fmts) =
     (case dfparse e cleaned fmt of
        Some parsed \<Rightarrow> Some (fixYear parsed)
      | None \<Rightarrow> parseDate_loop e cleaned fmts)"

definition parseDate :: "env \<Rightarrow> jsstring \<Rightarrow> jsdate option" where
  "parseDate e dateStr =
     (if dateStr = [] then None
      else let cleaned = trim dateStr
           in case parseDate_loop e cleaned DATE_FORMATS of
                Some parsed \<Rightarrow> Some parsed
              | None \<Rightarrow> nativeDate e (JStr cleaned))"

text \<open>\<^verbatim>\<open>[-/]\<close>\<close>

definition date_sep :: regex where
  "date_sep = Cls [Ch CHR ''-'', Ch CHR ''/'']"

text \<open>The five patterns of \<open>extractDate\<close>:
  \<^verbatim>\<open>/(\d{1,2}[-/]\w{3}[-/]\d{2,4})/i\<close>, \<^verbatim>\<open>/(\d{1,2}[-/]\d{1,2}[-/]\d{2,4})/\<close>,
  \<^verbatim>\<open>/(\d{4}[-/]\d{1,2}[-/]\d{1,2})/\<close>, \<^verbatim>\<open>/(\w{3}\s+\d{1,2},?\s+\d{4})/i\<close>,
  \<^verbatim>\<open>/(\d{1,2}\s+\w{3}\s+\d{2,4})/i\<close>.\<close>

definition date_patterns :: "(bool \<times> regex) list" where
  "date_patterns =
     [(True, Grp 1 (seqs [rtimes 1 2 (Cls [Digit]), date_sep, rtimes 3 3 (Cls [Word]), date_sep,
                          rtimes 2 4 (Cls [Digit])])),
      (False, Grp 1 (seqs [rtimes 1 2 (Cls [Digit]), date_sep, rtimes 1 2 (Cls [Digit]), date_sep,
                           rtimes 2 4 (Cls [Digit])])),
      (False, Grp 1 (seqs [rtimes 4 4 (Cls [Digit]), date_sep, rtimes 1 2 (Cls [Digit]), date_sep,
                           rtimes 1 2 (Cls [Digit])])),
      (True, Grp 1 (seqs [rtimes 3 3 (Cls [Word]), rplus (Cls [Space]), rtimes 1 2 (Cls [Digit]),
                          ropt (Chr CHR '',''), rplus (Cls [Space]), rtimes 4 4 (Cls [Digit])])),
      (True, Grp 1 (seqs [rtimes 1 2 (Cls [Digit]), rplus (Cls [Space]), rtimes 3 3 (Cls [Word]),
                          rplus (Cls [Space]), rtimes 2 4 (Cls [Digit])]))]"

fun extractDate_loop :: "env \<Rightarrow> (bool \<times> regex) list \<Rightarrow> jsstring \<Rightarrow> jsdate option" where
  "extractDate_loop e [] text = None"
| "extractDate_loop e ((ci, pattern) # patterns) text =
     (case rx_match ci pattern text of
        None \<Rightarrow> extractDate_loop e patterns text
      | Some m \<Rightarrow>
          (case parseDate e (grp m 1) of
             Some parsed \<Rightarrow> Some parsed
           | None \<Rightarrow> extractDate_loop e patterns text))"

definition extractDate :: "env \<Rightarrow> jsstring \<Rightarrow> jsdate option" where
  "extractDate e text = extractDate_loop e date_patterns text"

section \<open>src/types/index.ts\<close>

datatype TransactionType = DEBIT | CREDIT

datatype Bank = HDFC | SIB | ICICI | AXIS | KOTAK | YES | UNKNOWN

text \<open>
  \<open>ParsedTransaction\<close>. The parsers of the bank emails put a string in \<open>merchant\<close> and a
  string or \<open>null\<close> in \<open>reference\<close>; the fallback copies both from the reply it decodes,
  whatever they are there.
\<close>

record ParsedTransaction =
  amount :: "int ext"
  type :: TransactionType
  merchant :: json
  date :: Date
  reference :: json
  bank :: Bank
  confidence :: real

text \<open>A string or \<open>null\<close>, as a value.\<close>

definition nullable :: "jsstring option \<Rightarrow> json" where
  "nullable s = (case s of Some v \<Rightarrow> JStr v | None \<Rightarrow> JNull)"

text \<open>\<open>ParserResult\<close>, with the \<open>needsLLMFallback\<close> flag the regex pass adds to it;
  an optional field that is not set is \<open>None\<close>.\<close>

record ParserResult =
  success :: bool
  transaction :: "ParsedTransaction option"
  error :: "jsstring option"
  usedLLM :: "bool option"
  needsLLMFallback :: "bool option"

definition parse_failure :: "jsstring \<Rightarrow> ParserResult" where
  "parse_failure msg =
     \<lparr>success = False, transaction = None, error = Some msg, usedLLM = None, needsLLMFallback = None\<rparr>"

definition parse_success :: "ParsedTransaction \<Rightarrow> ParserResult" where
  "parse_success t =
     \<lparr>success = True, transaction = Some t, error = None, usedLLM = None, needsLLMFallback = None\<rparr>"

text \<open>\<open>!amount\<close> for a number that may be \<open>null\<close> or \<open>NaN\<close>, and \<open>!reference\<close> for a
  string that may be \<open>null\<close>.\<close>

definition falsy_num :: "int ext option \<Rightarrow> bool" where
  "falsy_num a = (a = None \<or> a = Some (Fin 0) \<or> a = Some NaN)"

definition falsy_str :: "jsstring option \<Rightarrow> bool" where
  "falsy_str s = (s = None \<or> s = Some [])"

section \<open>src/lib/parsers/hdfc.ts\<close>

text \<open>\<^verbatim>\<open>[a-zA-Z0-9._-]\<close>\<close>

definition upi_chars :: "citem list" where
  "upi_chars = [Rng CHR ''a'' CHR ''z'', Rng CHR ''A'' CHR ''Z'', Rng CHR ''0'' CHR ''9'',
                Ch CHR ''.'', Ch CHR ''_'', Ch CHR ''-'']"

text \<open>\<^verbatim>\<open>[a-zA-Z0-9._-]+@[a-zA-Z0-9._-]+\<close>\<close>

definition upi_address_re :: regex where
  "upi_address_re = seqs [rplus (Cls upi_chars), Chr CHR ''@'', rplus (Cls upi_chars)]"

text \<open>\<^verbatim>\<open>/(?:Rs\.?|INR)\s*([\d,]+(?:\.\d{2})?)/i\<close>\<close>

definition hdfc_amount_re :: regex where
  "hdfc_amount_re =
     seqs [Alt (Seq (lit ''Rs'') (ropt (Chr CHR ''.''))) (lit ''INR''), rstar (Cls [Space]),
           Grp 1 (Seq (rplus (Cls [Digit, Ch CHR '','']))
                      (ropt (Seq (Chr CHR ''.'') (rtimes 2 2 (Cls [Digit])))))]"

text \<open>\<^verbatim>\<open>/to\s+([a-zA-Z0-9._-]+@[a-zA-Z0-9._-]+)\s+([A-Z][A-Za-z0-9\s&.,()-]+?)\s+on\s+\d/i\<close>\<close>

definition hdfc_upi_to_merchant_re :: regex where
  "hdfc_upi_to_merchant_re =
     seqs [lit ''to'', rplus (Cls [Space]), Grp 1 upi_address_re, rplus (Cls [Space]),
           Grp 2 (Seq (Cls [Rng CHR ''A'' CHR ''Z''])
                      (rplus_lazy (Cls [Rng CHR ''A'' CHR ''Z'', Rng CHR ''a'' CHR ''z'',
                                        Rng CHR ''0'' CHR ''9'', Space, Ch CHR ''&'', Ch CHR ''.'',
                                        Ch CHR '','', Ch CHR ''('', Ch CHR '')'', Ch CHR ''-'']))),
           rplus (Cls [Space]), lit ''on'', rplus (Cls [Space]), Cls [Digit]]"

text \<open>\<^verbatim>\<open>/VPA\s+([a-zA-Z0-9._-]+@[a-zA-Z0-9._-]+)\s*\(([^)]+)\)/i\<close>\<close>

definition hdfc_vpa_re :: regex where
  "hdfc_vpa_re =
     seqs [lit ''VPA'', rplus (Cls [Space]), Grp 1 upi_address_re, rstar (Cls [Space]),
           Chr CHR ''('', Grp 2 (rplus (NCls [Ch CHR '')''])), Chr CHR '')'']"

text \<open>\<^verbatim>\<open>/Info[:\s]+UPI\/([^\/]+)\/([^\n\r]+)/i\<close>\<close>

definition hdfc_upi_info_re :: regex where
  "hdfc_upi_info_re =
     seqs [lit ''Info'', rplus (Cls [Ch CHR '':'', Space]), lit ''UPI/'',
           Grp 1 (rplus (NCls [Ch CHR ''/''])), Chr CHR ''/'',
           Grp 2 (rplus (NCls [Ch CHR 0x0A, Ch CHR 0x0D]))]"

text \<open>\<^verbatim>\<open>/(?:transferred|sent|paid)\s+(?:to|from)\s+([^\n\r.]+)/i\<close>\<close>

definition hdfc_transfer_re :: regex where
  "hdfc_transfer_re =
     seqs [alts [lit ''transferred'', lit ''sent'', lit ''paid''], rplus (Cls [Space]),
           Alt (lit ''to'') (lit ''from''), rplus (Cls [Space]),
           Grp 1 (rplus (NCls [Ch CHR 0x0A, Ch CHR 0x0D, Ch CHR ''.'']))]"

text \<open>\<^verbatim>\<open>/UPI\s+(?:transaction\s+)?reference\s+(?:number\s+)?(?:is\s+)?(\d+)/i\<close>\<close>

definition hdfc_upi_ref_re :: regex where
  "hdfc_upi_ref_re =
     seqs [lit ''UPI'', rplus (Cls [Space]),
           ropt (Seq (lit ''transaction'') (rplus (Cls [Space]))),
           lit ''reference'', rplus (Cls [Space]),
           ropt (Seq (lit ''number'') (rplus (Cls [Space]))),
           ropt (Seq (lit ''is'') (rplus (Cls [Space]))),
           Grp 1 (rplus (Cls [Digit]))]"

text \<open>\<^verbatim>\<open>/(NEFT|IMPS)[:\s]*([A-Z0-9]+)/i\<close>\<close>

definition hdfc_neft_re :: regex where
  "hdfc_neft_re =
     seqs [Grp 1 (Alt (lit ''NEFT'') (lit ''IMPS'')), rstar (Cls [Ch CHR '':'', Space]),
           Grp 2 (rplus (Cls [Rng CHR ''A'' CHR ''Z'', Rng CHR ''0'' CHR ''9'']))]"

text \<open>\<^verbatim>\<open>/^(mr|mrs|ms|dr)\.?\s*/i\<close>\<close>

definition title_re :: regex where
  "title_re =
     seqs [Bol, Grp 1 (alts [lit ''mr'', lit ''mrs'', lit ''ms'', lit ''dr'']), ropt (Chr CHR ''.''),
           rstar (Cls [Space])]"

definition hdfc_cleanMerchantName :: "jsstring \<Rightarrow> jsstring" where
  "hdfc_cleanMerchantName name =
     substring0 100 (trim
       (replace_first True title_re []
         (replace_all False (rplus (Cls [Space])) (str '' '')
           (replace_all False (rplus (Cls [Ch CHR ''*''])) [] name))))"

definition hdfc_calculateConfidence :: "env \<Rightarrow> int ext \<Rightarrow> jsstring \<Rightarrow> Date \<Rightarrow> real" where
  "hdfc_calculateConfidence e amt mer dt =
     (let conf = 0.5;
          conf = (if positive amt then conf + 0.2 else conf);
          conf = (if mer \<noteq> (str ''Unknown'') then conf + 0.2 else conf);
          daysSinceTransaction =
            map_option (\<lambda>d. real_of_int (now e - getTime e d) / (1000 * 60 * 60 * 24)) dt;
          conf = (if (case daysSinceTransaction of
                        Some days \<Rightarrow> days \<ge> 0 \<and> days < 365
                      | None \<Rightarrow> False)
                  then conf + 0.1 else conf)
      in min conf 1)"

text \<open>Lines 27 to 42 of \<open>parseHDFCEmail\<close>: the bank's own pattern, then \<open>extractAmount\<close>.\<close>

definition hdfc_amount :: "jsstring \<Rightarrow> int ext option" where
  "hdfc_amount text =
     (let amt = (case rx_match True hdfc_amount_re text of
                   None \<Rightarrow> None
                 | Some amountMatch \<Rightarrow>
                     (let amountStr = replace_all False (Chr CHR '','') [] (grp amountMatch 1)
                      in Some (Math_round (scale (parseFloat amountStr) 100))))
      in if falsy_num amt
         then (case extractAmount text of
                 Some amountResult \<Rightarrow> Some (fst amountResult)
               | None \<Rightarrow> amt)
         else amt)"

text \<open>Lines 51 to 101: the merchant and the reference, as the pair the two variables end in.\<close>

definition hdfc_merchant_reference :: "jsstring \<Rightarrow> jsstring \<times> jsstring option" where
  "hdfc_merchant_reference text =
     (let mr = ((str ''Unknown''), None);
          mr = (case rx_match True hdfc_upi_to_merchant_re text of
                  Some m \<Rightarrow> (trim (grp m 2), Some ((str ''UPI/'') @ grp m 1))
                | None \<Rightarrow> mr);
          mr = (if fst mr = (str ''Unknown'')
                then (case rx_match True hdfc_vpa_re text of
                        Some m \<Rightarrow> (trim (grp m 2), Some ((str ''UPI/'') @ grp m 1))
                      | None \<Rightarrow> mr)
                else mr);
          mr = (if fst mr = (str ''Unknown'')
                then (case rx_match True hdfc_upi_info_re text of
                        Some m \<Rightarrow> (trim (grp m 2), Some ((str ''UPI/'') @ grp m 1))
                      | None \<Rightarrow> mr)
                else mr);
          mr = (if fst mr = (str ''Unknown'')
                then (case rx_match True hdfc_transfer_re text of
                        Some m \<Rightarrow> (trim (grp m 1), snd mr)
                      | None \<Rightarrow> mr)
                else mr);
          mr = (case rx_match True hdfc_upi_ref_re text of
                  Some m \<Rightarrow> if falsy_str (snd mr) then (fst mr, Some ((str ''UPI/'') @ grp m 1)) else mr
                | None \<Rightarrow> mr);
          mr = (if falsy_str (snd mr)
                then (case rx_match True hdfc_neft_re text of
                        Some m \<Rightarrow> (fst mr, Some (grp m 1 @ (str ''/'') @ grp m 2))
                      | None \<Rightarrow> mr)
                else mr)
      in mr)"

text \<open>Nothing in the body of the \<open>try\<close> throws here, so its \<open>catch\<close> has no branch.\<close>

definition parseHDFCEmail :: "env \<Rightarrow> jsstring \<Rightarrow> jsstring \<Rightarrow> Date \<Rightarrow> ParserResult" where
  "parseHDFCEmail e body subject emailDate =
     (let text = extractEmailText e body;
          lowerText = toLowerCase e text
      in if str_includes lowerText (str ''was declined'') \<or> str_includes lowerText (str ''failed'')
            \<or> str_includes lowerText (str ''unsuccessful'')
         then parse_failure (str ''Declined/failed transaction - skipping'')
         else if \<not> (str_includes lowerText (str ''debited'') \<or> str_includes lowerText (str ''has been debited''))
               \<and> \<not> (str_includes lowerText (str ''credited'') \<or> str_includes lowerText (str ''has been credited'')
                      \<or> str_includes lowerText (str ''received''))
         then parse_failure (str ''Could not determine transaction type'')
         else let ty = (if str_includes lowerText (str ''debited'') \<or> str_includes lowerText (str ''has been debited'')
                        then DEBIT else CREDIT)
              in case hdfc_amount text of
                   None \<Rightarrow> parse_failure (str ''Could not extract amount'')
                 | Some amt \<Rightarrow>
                     if amt = Fin 0 \<or> amt = NaN then parse_failure (str ''Could not extract amount'')
                     else let dt = (case extractDate e text of Some d \<Rightarrow> Some d | None \<Rightarrow> emailDate);
                              mr = hdfc_merchant_reference text;
                              mer = hdfc_cleanMerchantName (fst mr)
                          in parse_success
                               \<lparr>amount = amt, type = ty, merchant = JStr mer, date = dt,
                                reference = nullable (snd mr), bank = HDFC,
                                confidence = hdfc_calculateConfidence e amt mer dt\<rparr>)"

section \<open>The South Indian Bank parser (src/lib/parsers/sib.ts)\<close>

text \<open>\<^verbatim>\<open>[A-Z0-9]\<close>\<close>

definition upper_alnum :: "citem list" where
  "upper_alnum = [Rng CHR ''A'' CHR ''Z'', Rng CHR ''0'' CHR ''9'']"

text \<open>\<^verbatim>\<open>[^\n\r]+\<close>\<close>

definition to_eol_re :: regex where
  "to_eol_re = rplus (NCls [Ch CHR 0x0A, Ch CHR 0x0D])"

text \<open>\<^verbatim>\<open>/(?:to|from|at|by)\s+([A-Za-z0-9\s&.-]+?)(?:\s+on|\s+for|\s+via|\s+through|\s+ref|\n|$)/i\<close>\<close>

definition sib_to_from_re :: regex where
  "sib_to_from_re =
     seqs [alts [lit ''to'', lit ''from'', lit ''at'', lit ''by''], rplus (Cls [Space]),
           Grp 1 (rplus_lazy (Cls [Rng CHR ''A'' CHR ''Z'', Rng CHR ''a'' CHR ''z'',
                                   Rng CHR ''0'' CHR ''9'', Space, Ch CHR ''&'', Ch CHR ''.'',
                                   Ch CHR ''-''])),
           alts [Seq (rplus (Cls [Space])) (lit ''on''), Seq (rplus (Cls [Space])) (lit ''for''),
                 Seq (rplus (Cls [Space])) (lit ''via''), Seq (rplus (Cls [Space])) (lit ''through''),
                 Seq (rplus (Cls [Space])) (lit ''ref''), Chr CHR 0x0A, Eol]]"

text \<open>\<^verbatim>\<open>/UPI[:\s]+([^\n\r]+)/i\<close>\<close>

definition sib_upi_re :: regex where
  "sib_upi_re = seqs [lit ''UPI'', rplus (Cls [Ch CHR '':'', Space]), Grp 1 to_eol_re]"

text \<open>\<^verbatim>\<open>/(?:ref(?:erence)?|txn|transaction)[:\s#]*([A-Z0-9]+)/i\<close>\<close>

definition sib_ref_re :: regex where
  "sib_ref_re =
     seqs [alts [Seq (lit ''ref'') (ropt (lit ''erence'')), lit ''txn'', lit ''transaction''],
           rstar (Cls [Ch CHR '':'', Space, Ch CHR ''#'']), Grp 1 (rplus (Cls upper_alnum))]"

text \<open>\<^verbatim>\<open>/(IMPS|NEFT)[:\s]*([A-Z0-9]+)?/i\<close>\<close>

definition sib_imps_re :: regex where
  "sib_imps_re =
     seqs [Grp 1 (Alt (lit ''IMPS'') (lit ''NEFT'')), rstar (Cls [Ch CHR '':'', Space]),
           ropt (Grp 2 (rplus (Cls upper_alnum)))]"

text \<open>\<^verbatim>\<open>/a\/c\s*\d+/i\<close>\<close>

definition sib_account_re :: regex where
  "sib_account_re = seqs [lit ''a/c'', rstar (Cls [Space]), rplus (Cls [Digit])]"

definition sib_cleanMerchantName :: "jsstring \<Rightarrow> jsstring" where
  "sib_cleanMerchantName name =
     substring0 100 (trim
       (replace_first True sib_account_re []
         (replace_first True title_re []
           (replace_all False (rplus (Cls [Space])) (str '' '')
             (replace_all False (rplus (Cls [Ch CHR ''*''])) [] name)))))"

definition sib_calculateConfidence :: "env \<Rightarrow> int ext \<Rightarrow> jsstring \<Rightarrow> Date \<Rightarrow> real" where
  "sib_calculateConfidence e amt mer dt =
     (let conf = 0.5;
          conf = (if positive amt then conf + 0.2 else conf);
          conf = (if mer \<noteq> (str ''Unknown'') then conf + 0.2 else conf);
          daysSinceTransaction =
            map_option (\<lambda>d. real_of_int (now e - getTime e d) / (1000 * 60 * 60 * 24)) dt;
          conf = (if (case daysSinceTransaction of
                        Some days \<Rightarrow> days \<ge> 0 \<and> days < 365
                      | None \<Rightarrow> False)
                  then conf + 0.1 else conf)
      in min conf 1)"

text \<open>Lines 41 to 74 of \<open>parseSIBEmail\<close>: the merchant and the reference.\<close>

definition sib_merchant_reference :: "jsstring \<Rightarrow> jsstring \<times> jsstring option" where
  "sib_merchant_reference text =
     (let mr = ((str ''Unknown''), None);
          mr = (case rx_match True sib_to_from_re text of
                  Some m \<Rightarrow> (trim (grp m 1), snd mr)
                | None \<Rightarrow> mr);
          mr = (case rx_match True sib_upi_re text of
                  Some m \<Rightarrow>
                    (let parts = split (asc CHR ''/'') (grp m 1)
                     in if length parts > 1
                        then (trim (last parts), Some ((str ''UPI/'') @ trim (hd parts)))
                        else (trim (grp m 1), Some (str ''UPI'')))
                | None \<Rightarrow> mr);
          mr = (case rx_match True sib_ref_re text of
                  Some m \<Rightarrow> if falsy_str (snd mr) then (fst mr, Some (grp m 1)) else mr
                | None \<Rightarrow> mr);
          mr = (case rx_match True sib_imps_re text of
                  Some m \<Rightarrow> (fst mr, Some (if grp m 2 \<noteq> [] then grp m 1 @ (str ''/'') @ grp m 2 else grp m 1))
                | None \<Rightarrow> mr)
      in mr)"

definition parseSIBEmail :: "env \<Rightarrow> jsstring \<Rightarrow> jsstring \<Rightarrow> Date \<Rightarrow> ParserResult" where
  "parseSIBEmail e body subject emailDate =
     (let text = extractEmailText e body;
          lowerText = toLowerCase e text
      in if \<not> (str_includes lowerText (str ''debited'') \<or> str_includes lowerText (str ''debit'')
                \<or> str_includes lowerText (str ''withdrawn'') \<or> str_includes lowerText (str ''purchase''))
            \<and> \<not> (str_includes lowerText (str ''credited'') \<or> str_includes lowerText (str ''credit'')
                   \<or> str_includes lowerText (str ''received'') \<or> str_includes lowerText (str ''deposit''))
         then parse_failure (str ''Could not determine transaction type'')
         else let ty = (if str_includes lowerText (str ''debited'') \<or> str_includes lowerText (str ''debit'')
                           \<or> str_includes lowerText (str ''withdrawn'') \<or> str_includes lowerText (str ''purchase'')
                        then DEBIT else CREDIT)
              in case extractAmount text of
                   None \<Rightarrow> parse_failure (str ''Could not extract amount'')
                 | Some amountResult \<Rightarrow>
                     let dt = (case extractDate e text of Some d \<Rightarrow> Some d | None \<Rightarrow> emailDate);
                         mr = sib_merchant_reference text;
                         mer = sib_cleanMerchantName (fst mr)
                     in parse_success
                          \<lparr>amount = fst amountResult, type = ty, merchant = JStr mer, date = dt,
                           reference = nullable (snd mr), bank = SIB,
                           confidence = sib_calculateConfidence e (fst amountResult) mer dt\<rparr>)"

section \<open>The generic parser (src/lib/parsers/generic.ts)\<close>

definition debitKeywords :: "jsstring list" where
  "debitKeywords = [(str ''debited''), (str ''debit''), (str ''withdrawn''), (str ''spent''), (str ''purchase''), (str ''payment of''), (str ''paid'')]"

definition creditKeywords :: "jsstring list" where
  "creditKeywords = [(str ''credited''), (str ''credit''), (str ''received''), (str ''deposited''), (str ''refund'')]"

definition bankKeywords :: "jsstring list" where
  "bankKeywords = [(str ''account''), (str ''balance''), (str ''transaction''), (str ''bank'')]"

text \<open>The end of a name: \<^verbatim>\<open>(?:\s+on|\s+ref|\n|$)\<close> and
  \<^verbatim>\<open>(?:\s+on|\s+via|\s+ref|\s+for|\n|$)\<close>.\<close>

definition generic_upi_end :: regex where
  "generic_upi_end =
     alts [Seq (rplus (Cls [Space])) (lit ''on''), Seq (rplus (Cls [Space])) (lit ''ref''),
           Chr CHR 0x0A, Eol]"

definition generic_name_end :: regex where
  "generic_name_end =
     alts [Seq (rplus (Cls [Space])) (lit ''on''), Seq (rplus (Cls [Space])) (lit ''via''),
           Seq (rplus (Cls [Space])) (lit ''ref''), Seq (rplus (Cls [Space])) (lit ''for''),
           Chr CHR 0x0A, Eol]"

text \<open>\<open>merchantPatterns\<close>, all with the \<open>i\<close> flag:
  \<^verbatim>\<open>/UPI[:\-\s]+(?:[^\s\/]+\/)?([^\n\r\/]+?)(?:\s+on|\s+ref|\n|$)/i\<close>,
  \<^verbatim>\<open>/VPA[:\s]+([^\n\r]+)/i\<close>,
  \<^verbatim>\<open>/(?:at|to|from|paid to|received from)\s+([A-Za-z0-9\s&.,'-]+?)(?:\s+on|\s+via|\s+ref|\s+for|\n|$)/i\<close>,
  \<^verbatim>\<open>/Info[:\s]+([^\n\r]+)/i\<close>, \<^verbatim>\<open>/merchant[:\s]+([^\n\r]+)/i\<close>,
  \<^verbatim>\<open>/payee[:\s]+([^\n\r]+)/i\<close>.\<close>

definition merchantPatterns :: "regex list" where
  "merchantPatterns =
     [seqs [lit ''UPI'', rplus (Cls [Ch CHR '':'', Ch CHR ''-'', Space]),
            ropt (Seq (rplus (NCls [Space, Ch CHR ''/''])) (Chr CHR ''/'')),
            Grp 1 (rplus_lazy (NCls [Ch CHR 0x0A, Ch CHR 0x0D, Ch CHR ''/''])), generic_upi_end],
      seqs [lit ''VPA'', rplus (Cls [Ch CHR '':'', Space]), Grp 1 to_eol_re],
      seqs [alts [lit ''at'', lit ''to'', lit ''from'', lit ''paid to'', lit ''received from''],
            rplus (Cls [Space]),
            Grp 1 (rplus_lazy (Cls [Rng CHR ''A'' CHR ''Z'', Rng CHR ''a'' CHR ''z'',
                                    Rng CHR ''0'' CHR ''9'', Space, Ch CHR ''&'', Ch CHR ''.'',
                                    Ch CHR '','', Ch CHR 0x27, Ch CHR ''-''])),
            generic_name_end],
      seqs [lit ''Info'', rplus (Cls [Ch CHR '':'', Space]), Grp 1 to_eol_re],
      seqs [lit ''merchant'', rplus (Cls [Ch CHR '':'', Space]), Grp 1 to_eol_re],
      seqs [lit ''payee'', rplus (Cls [Ch CHR '':'', Space]), Grp 1 to_eol_re]]"

text \<open>\<open>refPatterns\<close>, all with the \<open>i\<close> flag:
  \<^verbatim>\<open>/(?:ref(?:erence)?|txn|transaction|rrn)[:\s#]*([A-Z0-9]{6,})/i\<close>,
  \<^verbatim>\<open>/UPI[:\s]+([A-Z0-9]+)/i\<close>, \<^verbatim>\<open>/(IMPS|NEFT|RTGS)[:\s]*([A-Z0-9]+)/i\<close>.\<close>

definition refPatterns :: "regex list" where
  "refPatterns =
     [seqs [alts [Seq (lit ''ref'') (ropt (lit ''erence'')), lit ''txn'', lit ''transaction'', lit ''rrn''],
            rstar (Cls [Ch CHR '':'', Space, Ch CHR ''#'']), Grp 1 (ratleast 6 (Cls upper_alnum))],
      seqs [lit ''UPI'', rplus (Cls [Ch CHR '':'', Space]), Grp 1 (rplus (Cls upper_alnum))],
      seqs [Grp 1 (alts [lit ''IMPS'', lit ''NEFT'', lit ''RTGS'']), rstar (Cls [Ch CHR '':'', Space]),
            Grp 2 (rplus (Cls upper_alnum))]]"

fun generic_merchant_loop :: "regex list \<Rightarrow> jsstring \<Rightarrow> jsstring" where
  "generic_merchant_loop [] text = (str ''Unknown'')"
| "generic_merchant_loop (pattern # patterns) text =
     (case rx_match True pattern text of
        None \<Rightarrow> generic_merchant_loop patterns text
      | Some m \<Rightarrow>
          if grp m 1 \<noteq> []
          then (let extracted = trim (grp m 1)
                in if length extracted > 2 \<and> length extracted < 100 then extracted
                   else generic_merchant_loop patterns text)
          else generic_merchant_loop patterns text)"

fun generic_reference_loop :: "regex list \<Rightarrow> jsstring \<Rightarrow> jsstring option" where
  "generic_reference_loop [] text = None"
| "generic_reference_loop (pattern # patterns) text =
     (case rx_match True pattern text of
        None \<Rightarrow> generic_reference_loop patterns text
      | Some m \<Rightarrow> Some (if grp m 2 \<noteq> [] then grp m 1 @ (str ''/'') @ grp m 2 else grp m 1))"

text \<open>\<^verbatim>\<open>/a\/c\s*[*\d]+/i\<close> and \<^verbatim>\<open>/\*+\d+/g\<close>\<close>

definition generic_account_re :: regex where
  "generic_account_re = seqs [lit ''a/c'', rstar (Cls [Space]), rplus (Cls [Ch CHR ''*'', Digit])]"

definition masked_number_re :: regex where
  "masked_number_re = Seq (rplus (Chr CHR ''*'')) (rplus (Cls [Digit]))"

definition generic_cleanMerchantName :: "jsstring \<Rightarrow> jsstring" where
  "generic_cleanMerchantName name =
     substring0 100 (trim
       (replace_all False (Cls [Ch CHR ''<'', Ch CHR ''>'']) []
         (replace_all False masked_number_re []
           (replace_first True generic_account_re []
             (replace_first True title_re []
               (replace_all False (rplus (Cls [Space])) (str '' '')
                 (replace_all False (rplus (Cls [Ch CHR ''*''])) [] name)))))))"

definition generic_calculateConfidence :: "env \<Rightarrow> int ext \<Rightarrow> jsstring \<Rightarrow> Date \<Rightarrow> jsstring \<Rightarrow> real" where
  "generic_calculateConfidence e amt mer dt text =
     (let conf = 0.4;
          conf = (if positive amt then conf + 0.15 else conf);
          conf = (if mer \<noteq> (str ''Unknown'') \<and> length mer > 3 then conf + 0.2 else conf);
          daysSinceTransaction =
            map_option (\<lambda>d. real_of_int (now e - getTime e d) / (1000 * 60 * 60 * 24)) dt;
          conf = (if (case daysSinceTransaction of
                        Some days \<Rightarrow> days \<ge> 0 \<and> days < 365
                      | None \<Rightarrow> False)
                  then conf + 0.1 else conf);
          lowerText = toLowerCase e text;
          keywordCount = length (filter (\<lambda>k. str_includes lowerText k) bankKeywords);
          conf = conf + real keywordCount * 0.05
      in min conf 1)"

definition parseGenericBankEmail :: "env \<Rightarrow> jsstring \<Rightarrow> jsstring \<Rightarrow> Date \<Rightarrow> Bank \<Rightarrow> ParserResult" where
  "parseGenericBankEmail e body subject emailDate bk =
     (let text = extractEmailText e body;
          lowerText = toLowerCase e text;
          lowerSubject = toLowerCase e subject;
          ty = (if list_ex (\<lambda>keyword. str_includes lowerText keyword \<or> str_includes lowerSubject keyword)
                     debitKeywords
                then Some DEBIT
                else if list_ex (\<lambda>keyword. str_includes lowerText keyword \<or> str_includes lowerSubject keyword)
                          creditKeywords
                then Some CREDIT
                else None)
      in case ty of
           None \<Rightarrow> parse_failure (str ''Could not determine transaction type'')
         | Some ty \<Rightarrow>
             (case (case extractAmount text of Some r \<Rightarrow> Some r | None \<Rightarrow> extractAmount subject) of
                None \<Rightarrow> parse_failure (str ''Could not extract amount'')
              | Some amountResult \<Rightarrow>
                  let dt = (case extractDate e text of Some d \<Rightarrow> Some d | None \<Rightarrow> emailDate);
                      mer = generic_merchant_loop merchantPatterns text;
                      ref = generic_reference_loop refPatterns text;
                      mer = generic_cleanMerchantName mer
                  in parse_success
                       \<lparr>amount = fst amountResult, type = ty, merchant = JStr mer, date = dt,
                        reference = nullable ref, bank = bk,
                        confidence = generic_calculateConfidence e (fst amountResult) mer dt text\<rparr>))"

section \<open>The language-model oracle\<close>

text \<open>
  What a chat-completion request comes back with: an exception (the network, or
  \<open>JSON.parse\<close> on a malformed reply, or a reply that decodes to \<open>null\<close> or whose
  \<open>results\<close> cannot be iterated) with the message the \<open>catch\<close> reads from it, an empty
  content, or the decoded object. An API key is configured when it is a non-empty string.
\<close>

datatype 'a reply = Throws jsstring | Empty | Content 'a

text \<open>
  \<open>LLMParseResult\<close> and \<open>BatchLLMParseResult\<close> as they come decoded. The \<open>as\<close> cast of
  the source checks nothing, so every field is whatever value the reply holds there
  (\<open>JUndefined\<close> when it holds none).
\<close>

record LLMParseResult =
  llm_amount :: json
  llm_type :: json
  llm_merchant :: json
  llm_date :: json
  llm_reference :: json

record BatchLLMParseResult = LLMParseResult +
  llm_id :: json

text \<open>An element of a decoded \<open>results\<close> array: \<open>null\<close> (reading a field of it throws a
  \<open>TypeError\<close>) or anything else, read field by field.\<close>

datatype 'a item = NullItem | Item 'a

definition null_item_error :: jsstring where
  "null_item_error = str ''Cannot read properties of null''"

section \<open>src/lib/parsers/llm-fallback.ts\<close>

record EmailToParse =
  e_id :: jsstring
  e_body :: jsstring
  e_subject :: jsstring
  e_emailDate :: Date
  e_bank :: Bank

definition llm_failure :: "jsstring \<Rightarrow> ParserResult" where
  "llm_failure msg =
     \<lparr>success = False, transaction = None, error = Some msg, usedLLM = Some True,
      needsLLMFallback = None\<rparr>"

text \<open>\<^verbatim>\<open>!parsed.amount || !parsed.type || !parsed.merchant\<close>\<close>

definition missing_fields :: "('a LLMParseResult_scheme) \<Rightarrow> bool" where
  "missing_fields parsed =
     (\<not> truthy (llm_amount parsed) \<or> \<not> truthy (llm_type parsed) \<or> \<not> truthy (llm_merchant parsed))"

text \<open>The fields of one decoded record made into a transaction (lines 88 to 102, and 204 to
  217 of the batch).\<close>

definition llm_transaction :: "env \<Rightarrow> ('a LLMParseResult_scheme) \<Rightarrow> Date \<Rightarrow> Bank \<Rightarrow> ParsedTransaction" where
  "llm_transaction e parsed emailDate bk =
     (let amountInPaise = Math_round (scale (toNumber (llm_amount parsed)) 100);
          transactionDate = (if truthy (llm_date parsed) then nativeDate e (llm_date parsed) else emailDate)
      in \<lparr>amount = amountInPaise,
          type = (if llm_type parsed = JStr (str ''debit'') then DEBIT else CREDIT),
          merchant = llm_merchant parsed,
          date = transactionDate,
          reference = llm_reference parsed,
          bank = bk,
          confidence = 0.7\<rparr>)"

text \<open>
  The single-email fallback. The oracle is given the user message of the request; the
  second component of the result lists the requests made.
\<close>

definition parseLLMFallback ::
  "env \<Rightarrow> (jsstring \<Rightarrow> LLMParseResult reply) \<Rightarrow> jsstring \<Rightarrow> jsstring \<Rightarrow> Date \<Rightarrow> Bank \<Rightarrow> jsstring option
     \<Rightarrow> ParserResult \<times> jsstring list" where
  "parseLLMFallback e oracle body subject emailDate bk openaiApiKey =
     (if falsy_str openaiApiKey
      then (parse_failure (str ''OpenAI API key not configured''), [])
      else let text = extractEmailText e body;
               request = str ''Subject: '' @ subject @ str [CHR 0x0A, CHR 0x0A] @ str ''Body:''
                           @ str [CHR 0x0A] @ substring0 2000 text
           in (case oracle request of
                 Throws msg \<Rightarrow> parse_failure msg
               | Empty \<Rightarrow> parse_failure (str ''Empty LLM response'')
               | Content parsed \<Rightarrow>
                   if missing_fields parsed
                   then parse_failure (str ''LLM could not extract required fields'')
                   else parse_success (llm_transaction e parsed emailDate bk),
               [request]))"

text \<open>One entry of a batch request, as the prompt lists it.\<close>

record llm_request_item =
  rq_id :: jsstring
  rq_subject :: jsstring
  rq_bank :: Bank
  rq_text :: jsstring

type_synonym llm_oracle = "nat \<Rightarrow> llm_request_item list \<Rightarrow> BatchLLMParseResult item list reply"

text \<open>Lines 190 to 221: the loop over the records of a reply. It stops at a \<open>null\<close>
  element with the error thrown there. A record is stored under its \<open>id\<close>, which is the
  \<open>id\<close> of the email found for it.\<close>

fun process_results ::
  "env \<Rightarrow> EmailToParse list \<Rightarrow> BatchLLMParseResult item list \<Rightarrow> (jsstring \<rightharpoonup> ParserResult)
     \<Rightarrow> jsstring option \<times> (jsstring \<rightharpoonup> ParserResult)" where
  "process_results e batch [] results = (None, results)"
| "process_results e batch (NullItem # rs) results = (Some null_item_error, results)"
| "process_results e batch (Item result # rs) results =
     (case find (\<lambda>em. JStr (e_id em) = llm_id result) batch of
        None \<Rightarrow> process_results e batch rs results
      | Some email \<Rightarrow>
          if missing_fields result
          then process_results e batch rs
                 (results(e_id email \<mapsto> llm_failure (str ''LLM could not extract required fields'')))
          else process_results e batch rs
                 (results(e_id email \<mapsto>
                    \<lparr>success = True,
                     transaction = Some (llm_transaction e result (e_emailDate email) (e_bank email)),
                     error = None, usedLLM = Some True, needsLLMFallback = None\<rparr>)))"

text \<open>Lines 224 to 233 and 239 to 248: every email of the batch without an outcome gets
  a failure.\<close>

fun mark_missing :: "jsstring \<Rightarrow> EmailToParse list \<Rightarrow> (jsstring \<rightharpoonup> ParserResult) \<Rightarrow> (jsstring \<rightharpoonup> ParserResult)" where
  "mark_missing msg [] results = results"
| "mark_missing msg (email # batch) results =
     mark_missing msg batch
       (if results (e_id email) = None then results(e_id email \<mapsto> llm_failure msg) else results)"

definition BATCH_SIZE :: nat where
  "BATCH_SIZE = 25"

definition llm_request :: "env \<Rightarrow> EmailToParse list \<Rightarrow> llm_request_item list" where
  "llm_request e batch =
     map (\<lambda>email. \<lparr>rq_id = e_id email, rq_subject = e_subject email, rq_bank = e_bank email,
                   rq_text = substring0 800 (extractEmailText e (e_body email))\<rparr>) batch"

text \<open>The body of the loop over the batches: one request, then the \<open>try\<close> or its \<open>catch\<close>.\<close>

definition llm_batch ::
  "env \<Rightarrow> llm_oracle \<Rightarrow> nat \<Rightarrow> EmailToParse list \<Rightarrow> (jsstring \<rightharpoonup> ParserResult) \<Rightarrow> (jsstring \<rightharpoonup> ParserResult)" where
  "llm_batch e oracle k batch results =
     (case oracle k (llm_request e batch) of
        Throws msg \<Rightarrow> mark_missing msg batch results
      | Empty \<Rightarrow> mark_missing (str ''Empty LLM response'') batch results
      | Content rs \<Rightarrow>
          (case process_results e batch rs results of
             (None, results') \<Rightarrow> mark_missing (str ''Email not in LLM response'') batch results'
           | (Some msg, results') \<Rightarrow> mark_missing msg batch results'))"

text \<open>\<^verbatim>\<open>for (let i = 0; i < emails.length; i += BATCH_SIZE)\<close>, on the emails from \<open>i\<close> on;
  \<open>k\<close> counts the requests.\<close>

function llm_batches ::
  "env \<Rightarrow> llm_oracle \<Rightarrow> nat \<Rightarrow> EmailToParse list \<Rightarrow> (jsstring \<rightharpoonup> ParserResult) \<Rightarrow> llm_request_item list list
     \<Rightarrow> (jsstring \<rightharpoonup> ParserResult) \<times> llm_request_item list list" where
  "llm_batches e oracle k emails results calls =
     (if emails = [] then (results, calls)
      else let batch = take BATCH_SIZE emails
           in llm_batches e oracle (Suc k) (drop BATCH_SIZE emails)
                (llm_batch e oracle k batch results) (calls @ [llm_request e batch]))"
  by pat_completeness auto
termination
  by (relation "measure (\<lambda>(e, oracle, k, emails, results, calls). length emails)")
     (auto simp: BATCH_SIZE_def)

text \<open>The result is the map of outcomes and the list of the requests made to the oracle.\<close>

definition batchParseLLMFallback ::
  "env \<Rightarrow> llm_oracle \<Rightarrow> EmailToParse list \<Rightarrow> jsstring option
     \<Rightarrow> (jsstring \<rightharpoonup> ParserResult) \<times> llm_request_item list list" where
  "batchParseLLMFallback e oracle emails openaiApiKey =
     (if falsy_str openaiApiKey \<or> emails = []
      then (foldl (\<lambda>results email. results(e_id email \<mapsto> llm_failure (str ''OpenAI API key not configured'')))
              Map.empty emails, [])
      else llm_batches e oracle 0 emails Map.empty [])"

section \<open>The parse orchestrator (src/lib/parsers/index.ts)\<close>

text \<open>The \<open>switch\<close> on the bank, which both entry points start with.\<close>

definition bank_parser :: "env \<Rightarrow> jsstring \<Rightarrow> jsstring \<Rightarrow> Date \<Rightarrow> Bank \<Rightarrow> ParserResult" where
  "bank_parser e body subject dt bk =
     (case bk of
        HDFC \<Rightarrow> parseHDFCEmail e body subject dt
      | SIB \<Rightarrow> parseSIBEmail e body subject dt
      | _ \<Rightarrow> parseGenericBankEmail e body subject dt bk)"

text \<open>
  \<^verbatim>\<open>!result.success || (result.transaction && result.transaction.confidence < 0.7) ||
  (result.transaction && result.transaction.merchant === 'Unknown')\<close>, read as a truth value.
\<close>

definition needs_llm :: "ParserResult \<Rightarrow> bool" where
  "needs_llm result =
     (\<not> success result
      \<or> (case transaction result of Some t \<Rightarrow> confidence t < 0.7 | None \<Rightarrow> False)
      \<or> (case transaction result of Some t \<Rightarrow> merchant t = JStr (str ''Unknown'') | None \<Rightarrow> False))"

definition parseEmailWithRegex :: "env \<Rightarrow> jsstring \<Rightarrow> jsstring \<Rightarrow> Date \<Rightarrow> Bank \<Rightarrow> ParserResult" where
  "parseEmailWithRegex e body subject dt bk =
     (let result = bank_parser e body subject dt bk;
          needsLLM = needs_llm result
      in result\<lparr>usedLLM := Some False, needsLLMFallback := Some needsLLM\<rparr>)"

text \<open>The second component of the result lists the requests made to the oracle: it is
  empty when the fallback was not consulted.\<close>

definition parseTransactionEmail ::
  "env \<Rightarrow> (jsstring \<Rightarrow> LLMParseResult reply) \<Rightarrow> jsstring \<Rightarrow> jsstring \<Rightarrow> Date \<Rightarrow> Bank \<Rightarrow> jsstring option
     \<Rightarrow> ParserResult \<times> jsstring list" where
  "parseTransactionEmail e oracle body subject dt bk openaiApiKey =
     (let result = bank_parser e body subject dt bk;
          needsLLMFallback = needs_llm result
      in if success result
            \<and> (case transaction result of
                  Some t \<Rightarrow> confidence t \<ge> 0.7 \<and> merchant t \<noteq> JStr (str ''Unknown'')
                | None \<Rightarrow> False)
         then (result\<lparr>usedLLM := Some False\<rparr>, [])
         else if \<not> falsy_str openaiApiKey \<and> needsLLMFallback
         then (case parseLLMFallback e oracle body subject dt bk openaiApiKey of
                 (llmResult, calls) \<Rightarrow>
                   (case (if success llmResult then transaction llmResult else None) of
                      Some l \<Rightarrow>
                        if success result
                           \<and> (case transaction result of
                                 Some t \<Rightarrow> merchant t \<noteq> JStr (str ''Unknown'') \<and> confidence t > confidence l
                               | None \<Rightarrow> False)
                        then (result\<lparr>usedLLM := Some False\<rparr>, calls)
                        else (llmResult\<lparr>usedLLM := Some True\<rparr>, calls)
                    | None \<Rightarrow> (result\<lparr>usedLLM := Some False\<rparr>, calls)))
         else (result\<lparr>usedLLM := Some False\<rparr>, []))"

section \<open>The categorization engine (src/lib/llm/categorize.ts)\<close>

text \<open>A row of the category catalog (its \<open>id\<close> and \<open>name\<close>; the other columns are not read).\<close>

record Category =
  cat_id :: jsstring
  cat_name :: jsstring

text \<open>
  \<open>CategorizationResult\<close>. The engine copies fields of the oracle's reply into it as they
  are, so each holds a value of any kind; \<open>c_confidence\<close> is the field \<open>confidence\<close>.
\<close>

record CategorizationResult =
  categoryId :: json
  cleanMerchant :: json
  subcategory :: json
  c_confidence :: json

text \<open>What the oracle returns for one transaction, as it comes decoded: the \<open>as\<close> cast
  checks nothing, so every field is whatever value the reply holds there.\<close>

record cat_reply =
  r_categoryId :: json
  r_cleanMerchant :: json
  r_subcategory :: json
  r_confidence :: json

record batch_cat_reply = cat_reply +
  r_id :: json

text \<open>An entry of the list handed to \<open>batchCategorize\<close>.\<close>

record cat_input =
  ci_id :: jsstring
  ci_merchant :: json
  ci_amount :: "int ext"
  ci_type :: TransactionType

type_synonym cat_oracle = "nat \<Rightarrow> cat_input list \<Rightarrow> batch_cat_reply item list reply"

text \<open>\<^verbatim>\<open>allCategories.find((c) => c.name === 'Other')?.id || null\<close>\<close>

definition other_id :: "Category list \<Rightarrow> json" where
  "other_id allCategories =
     (case find (\<lambda>c. cat_name c = str ''Other'') allCategories of
        None \<Rightarrow> JNull
      | Some otherCategory \<Rightarrow> or_else (JStr (cat_id otherCategory)) JNull)"

text \<open>\<^verbatim>\<open>allCategories.find((c) => c.id === categoryId)\<close>, as a truth value: \<open>===\<close> holds
  for no value that is not a string.\<close>

definition valid_category :: "Category list \<Rightarrow> json \<Rightarrow> bool" where
  "valid_category allCategories cid = (find (\<lambda>c. JStr (cat_id c) = cid) allCategories \<noteq> None)"

text \<open>The safe default of every fallback branch.\<close>

definition default_categorization :: "Category list \<Rightarrow> json \<Rightarrow> CategorizationResult" where
  "default_categorization allCategories mer =
     \<lparr>categoryId = other_id allCategories, cleanMerchant = mer, subcategory = JNull,
      c_confidence = JNum (Fin 0.3)\<rparr>"

text \<open>The oracle of the single call is given the merchant, the amount and the type.\<close>

definition categorizeTransaction ::
  "Category list \<Rightarrow> (jsstring \<Rightarrow> int ext \<Rightarrow> TransactionType \<Rightarrow> cat_reply reply) \<Rightarrow> jsstring \<Rightarrow> int ext
     \<Rightarrow> TransactionType \<Rightarrow> jsstring option \<Rightarrow> CategorizationResult" where
  "categorizeTransaction allCategories oracle mer amt ty openaiApiKey =
     (if falsy_str openaiApiKey then default_categorization allCategories (JStr mer)
      else case oracle mer amt ty of
             Throws msg \<Rightarrow> default_categorization allCategories (JStr mer)
           | Empty \<Rightarrow> default_categorization allCategories (JStr mer)
           | Content parsed \<Rightarrow>
               (let validCategory = valid_category allCategories (r_categoryId parsed);
                    parsed = (if \<not> validCategory
                              then parsed\<lparr>r_categoryId := other_id allCategories,
                                          r_confidence := JNum (Math_min (toNumber (r_confidence parsed)) (Fin 0.5))\<rparr>
                              else parsed)
                in \<lparr>categoryId = r_categoryId parsed,
                    cleanMerchant = or_else (r_cleanMerchant parsed) (JStr mer),
                    subcategory = or_else (r_subcategory parsed) JNull,
                    c_confidence = or_else (r_confidence parsed) (JNum (Fin 0.7))\<rparr>))"

text \<open>Lines 186 to 194: the result stored for one record of a reply.\<close>

definition categorize_result :: "Category list \<Rightarrow> cat_input list \<Rightarrow> batch_cat_reply \<Rightarrow> CategorizationResult" where
  "categorize_result allCategories batch result =
     (let validCategory = valid_category allCategories (r_categoryId result);
          otherCategory = other_id allCategories
      in \<lparr>categoryId = (if validCategory then r_categoryId result else otherCategory),
          cleanMerchant =
            or_else (or_else (r_cleanMerchant result)
                       (case find (\<lambda>t. JStr (ci_id t) = r_id result) batch of
                          Some t \<Rightarrow> ci_merchant t
                        | None \<Rightarrow> JUndefined))
              (JStr (str ''Unknown'')),
          subcategory = or_else (r_subcategory result) JNull,
          c_confidence = (if validCategory then or_else (r_confidence result) (JNum (Fin 0.7))
                          else JNum (Fin 0.5))\<rparr>)"

text \<open>Lines 184 to 195: the loop over the records of a reply; it stops at a \<open>null\<close> element.
  The map is keyed by whatever value a record has as its \<open>id\<close>.\<close>

fun categorize_results ::
  "Category list \<Rightarrow> cat_input list \<Rightarrow> batch_cat_reply item list \<Rightarrow> (json \<rightharpoonup> CategorizationResult)
     \<Rightarrow> bool \<times> (json \<rightharpoonup> CategorizationResult)" where
  "categorize_results allCategories batch [] results = (True, results)"
| "categorize_results allCategories batch (NullItem # rs) results = (False, results)"
| "categorize_results allCategories batch (Item result # rs) results =
     categorize_results allCategories batch rs
       (results(r_id result \<mapsto> categorize_result allCategories batch result))"

text \<open>Lines 198 to 208 and 214 to 224, which are the same loop.\<close>

fun categorize_missing ::
  "Category list \<Rightarrow> cat_input list \<Rightarrow> (json \<rightharpoonup> CategorizationResult) \<Rightarrow> (json \<rightharpoonup> CategorizationResult)" where
  "categorize_missing allCategories [] results = results"
| "categorize_missing allCategories (tx # batch) results =
     categorize_missing allCategories batch
       (if results (JStr (ci_id tx)) = None
        then results(JStr (ci_id tx) \<mapsto> default_categorization allCategories (ci_merchant tx))
        else results)"

definition CAT_BATCH_SIZE :: nat where
  "CAT_BATCH_SIZE = 100"

definition categorize_batch ::
  "Category list \<Rightarrow> cat_oracle \<Rightarrow> nat \<Rightarrow> cat_input list \<Rightarrow> (json \<rightharpoonup> CategorizationResult)
     \<Rightarrow> (json \<rightharpoonup> CategorizationResult)" where
  "categorize_batch allCategories oracle k batch results =
     (case oracle k batch of
        Throws msg \<Rightarrow> categorize_missing allCategories batch results
      | Empty \<Rightarrow> categorize_missing allCategories batch results
      | Content rs \<Rightarrow>
          categorize_missing allCategories batch (snd (categorize_results allCategories batch rs results)))"

function categorize_batches ::
  "Category list \<Rightarrow> cat_oracle \<Rightarrow> nat \<Rightarrow> cat_input list \<Rightarrow> (json \<rightharpoonup> CategorizationResult)
     \<Rightarrow> (json \<rightharpoonup> CategorizationResult)" where
  "categorize_batches allCategories oracle k txs results =
     (if txs = [] then results
      else let batch = take CAT_BATCH_SIZE txs
           in categorize_batches allCategories oracle (Suc k) (drop CAT_BATCH_SIZE txs)
                (categorize_batch allCategories oracle k batch results))"
  by pat_completeness auto
termination
  by (relation "measure (\<lambda>(allCategories, oracle, k, txs, results). length txs)")
     (auto simp: CAT_BATCH_SIZE_def)

definition batchCategorize ::
  "Category list \<Rightarrow> cat_oracle \<Rightarrow> cat_input list \<Rightarrow> jsstring option \<Rightarrow> (json \<rightharpoonup> CategorizationResult)" where
  "batchCategorize allCategories oracle txs openaiApiKey =
     (if falsy_str openaiApiKey \<or> txs = []
      then foldl (\<lambda>results tx. results(JStr (ci_id tx) \<mapsto> default_categorization allCategories (ci_merchant tx)))
             Map.empty txs
      else categorize_batches allCategories oracle 0 txs Map.empty)"

section \<open>The sync controller (src/app/api/sync/route.ts)\<close>

text \<open>\<open>EmailData\<close> of the mail transport.\<close>

record EmailData =
  em_messageId :: jsstring
  em_sender :: jsstring
  em_subject :: jsstring
  em_body :: jsstring
  em_date :: Date
  em_bank :: Bank

datatype TransactionSource = EMAIL | MANUAL

text \<open>A row of the \<open>transactions\<close> table, holding the values handed to the insert;
  \<open>tx_id\<close> is its primary key.\<close>

record Transaction =
  tx_id :: jsstring
  userId :: jsstring
  tx_amount :: "int ext"
  currency :: jsstring
  tx_type :: TransactionType
  rawMerchant :: json
  tx_cleanMerchant :: json
  tx_categoryId :: json
  tx_subcategory :: json
  description :: "jsstring option"
  transactionDate :: Date
  source :: TransactionSource
  sourceBank :: Bank
  sourceRef :: json
  tx_emailMessageId :: "jsstring option"
  rawEmailSubject :: "jsstring option"
  tx_confidence :: jsnum
  isVerified :: bool
  createdAt :: int
  updatedAt :: int

text \<open>
  The database layer is a library. Its failures on the values of a candidate are
  parameters: the query for a content duplicate throws (a value the driver cannot bind),
  and the insert throws for another reason than a taken primary key (a value the driver
  cannot bind, a column constraint the row violates).
\<close>

record driver =
  queryThrows :: "Transaction list \<Rightarrow> ParsedTransaction \<Rightarrow> bool"
  insertThrows :: "Transaction list \<Rightarrow> Transaction \<Rightarrow> bool"

record ParsedEmail =
  pe_id :: jsstring
  emailMessageId :: jsstring
  emailSubject :: jsstring
  parsed :: ParsedTransaction

record NeedingLLM =
  nl_id :: jsstring
  nl_email :: EmailData
  regexResult :: "ParsedTransaction option"

text \<open>
  The variables of one run of \<open>POST\<close>, with the table, the number of identifiers drawn
  from \<open>uuidv4\<close>, and what was handed to the parsers: the emails given to
  \<open>parseEmailWithRegex\<close> and the requests made to the fallback oracle.
\<close>

record sync_state =
  db :: "Transaction list"
  newTransactions :: nat
  duplicates :: nat
  errors :: nat
  regexParsed :: nat
  llmParsed :: nat
  parsedEmails :: "ParsedEmail list"
  emailsNeedingLLM :: "NeedingLLM list"
  uuids :: nat
  regexCalls :: "EmailData list"
  llmCalls :: "llm_request_item list list"

text \<open>\<open>isEmailProcessed\<close> of src/lib/gmail/fetch.ts.\<close>

definition isEmailProcessed :: "Transaction list \<Rightarrow> jsstring \<Rightarrow> jsstring \<Rightarrow> bool" where
  "isEmailProcessed rows uid messageId =
     list_ex (\<lambda>t. userId t = uid \<and> tx_emailMessageId t = Some messageId) rows"

text \<open>Lines 65 to 116, for one email. Nothing in the body of the \<open>try\<close> throws here (the
  table is read in memory and the parsers are total), so its \<open>catch\<close> has no branch.\<close>

definition pass1_step :: "env \<Rightarrow> (nat \<Rightarrow> jsstring) \<Rightarrow> jsstring \<Rightarrow> sync_state \<Rightarrow> EmailData \<Rightarrow> sync_state" where
  "pass1_step e uuidv4 uid st email =
     (if isEmailProcessed (db st) uid (em_messageId email)
      then st\<lparr>duplicates := duplicates st + 1\<rparr>
      else let regexResult = parseEmailWithRegex e (em_body email) (em_subject email) (em_date email)
                               (em_bank email);
               st = st\<lparr>regexCalls := regexCalls st @ [email]\<rparr>
           in case (if success regexResult \<and> needsLLMFallback regexResult \<noteq> Some True
                    then transaction regexResult else None) of
                Some t \<Rightarrow>
                  st\<lparr>regexParsed := regexParsed st + 1,
                     parsedEmails := parsedEmails st @
                       [\<lparr>pe_id = uuidv4 (uuids st), emailMessageId = em_messageId email,
                         emailSubject = em_subject email, parsed = t\<rparr>],
                     uuids := Suc (uuids st)\<rparr>
              | None \<Rightarrow>
                  st\<lparr>emailsNeedingLLM := emailsNeedingLLM st @
                       [\<lparr>nl_id = uuidv4 (uuids st), nl_email = email,
                         regexResult = transaction regexResult\<rparr>],
                     uuids := Suc (uuids st)\<rparr>)"

definition push_parsed :: "NeedingLLM \<Rightarrow> ParsedTransaction \<Rightarrow> sync_state \<Rightarrow> sync_state" where
  "push_parsed item t st =
     st\<lparr>parsedEmails := parsedEmails st @
          [\<lparr>pe_id = nl_id item, emailMessageId = em_messageId (nl_email item),
            emailSubject = em_subject (nl_email item), parsed = t\<rparr>]\<rparr>"

text \<open>Lines 132 to 160, for one email that needed the fallback.\<close>

definition pass2_step :: "(jsstring \<rightharpoonup> ParserResult) \<Rightarrow> sync_state \<Rightarrow> NeedingLLM \<Rightarrow> sync_state" where
  "pass2_step llmResults st item =
     (case (case llmResults (nl_id item) of
              Some llmResult \<Rightarrow> if success llmResult then transaction llmResult else None
            | None \<Rightarrow> None) of
        Some t \<Rightarrow> push_parsed item t (st\<lparr>llmParsed := llmParsed st + 1\<rparr>)
      | None \<Rightarrow>
          (case regexResult item of
             Some t \<Rightarrow> push_parsed item t (st\<lparr>regexParsed := regexParsed st + 1\<rparr>)
           | None \<Rightarrow> st\<lparr>errors := errors st + 1\<rparr>))"

text \<open>Lines 164 to 176: no API key.\<close>

definition pass2_nokey_step :: "sync_state \<Rightarrow> NeedingLLM \<Rightarrow> sync_state" where
  "pass2_nokey_step st item =
     (case regexResult item of
        Some t \<Rightarrow> push_parsed item t (st\<lparr>regexParsed := regexParsed st + 1\<rparr>)
      | None \<Rightarrow> st\<lparr>errors := errors st + 1\<rparr>)"

definition pass2 :: "env \<Rightarrow> llm_oracle \<Rightarrow> jsstring option \<Rightarrow> sync_state \<Rightarrow> sync_state" where
  "pass2 e oracle openaiApiKey st =
     (if emailsNeedingLLM st \<noteq> [] \<and> \<not> falsy_str openaiApiKey
      then let emailsToParse =
                 map (\<lambda>item. \<lparr>e_id = nl_id item, e_body = em_body (nl_email item),
                               e_subject = em_subject (nl_email item),
                               e_emailDate = em_date (nl_email item),
                               e_bank = em_bank (nl_email item)\<rparr>) (emailsNeedingLLM st)
           in case batchParseLLMFallback e oracle emailsToParse openaiApiKey of
                (llmResults, calls) \<Rightarrow>
                  foldl (pass2_step llmResults) (st\<lparr>llmCalls := calls\<rparr>) (emailsNeedingLLM st)
      else if emailsNeedingLLM st \<noteq> []
      then foldl pass2_nokey_step st (emailsNeedingLLM st)
      else st)"

text \<open>Line 196: the categorization attached to a candidate.\<close>

definition categorization_of :: "(json \<rightharpoonup> CategorizationResult) \<Rightarrow> ParsedEmail \<Rightarrow> CategorizationResult" where
  "categorization_of categorizationResults email =
     (case categorizationResults (JStr (pe_id email)) of
        Some c \<Rightarrow> c
      | None \<Rightarrow> \<lparr>categoryId = JNull, cleanMerchant = merchant (parsed email), subcategory = JNull,
                  c_confidence = JNum (Fin 0.3)\<rparr>)"

text \<open>Lines 219 to 239: the row inserted for a candidate.\<close>

definition new_row :: "env \<Rightarrow> jsstring \<Rightarrow> ParsedEmail \<Rightarrow> CategorizationResult \<Rightarrow> Transaction" where
  "new_row e uid email categorization =
     \<lparr>tx_id = pe_id email,
      userId = uid,
      tx_amount = amount (parsed email),
      currency = str ''INR'',
      tx_type = type (parsed email),
      rawMerchant = merchant (parsed email),
      tx_cleanMerchant = cleanMerchant categorization,
      tx_categoryId = categoryId categorization,
      tx_subcategory = subcategory categorization,
      description = None,
      transactionDate = date (parsed email),
      source = EMAIL,
      sourceBank = bank (parsed email),
      sourceRef = reference (parsed email),
      tx_emailMessageId = Some (emailMessageId email),
      rawEmailSubject = Some (emailSubject email),
      tx_confidence = Math_min (Fin (confidence (parsed email))) (toNumber (c_confidence categorization)),
      isVerified = False,
      createdAt = now e,
      updatedAt = now e\<rparr>"

text \<open>
  The comparisons of the query for a content duplicate, as the table makes them: a
  \<open>NaN\<close> is stored and bound as \<open>NULL\<close>, which equals nothing, and a date is stored as
  its whole seconds (\<open>Math.floor(getTime() / 1000)\<close>, \<open>NULL\<close> for an invalid date).
\<close>

definition same_amount :: "int ext \<Rightarrow> int ext \<Rightarrow> bool" where
  "same_amount a b = (a = b \<and> a \<noteq> NaN)"

definition same_second :: "env \<Rightarrow> Date \<Rightarrow> Date \<Rightarrow> bool" where
  "same_second e a b =
     (case a of
        None \<Rightarrow> False
      | Some x \<Rightarrow> (case b of None \<Rightarrow> False | Some y \<Rightarrow> getTime e x div 1000 = getTime e y div 1000))"

text \<open>Lines 194 to 246, for one candidate. A query or an insert that throws is counted by
  the \<open>catch\<close> as an error; the insert throws when the primary key is taken.\<close>

definition pass3_step ::
  "env \<Rightarrow> driver \<Rightarrow> jsstring \<Rightarrow> (json \<rightharpoonup> CategorizationResult) \<Rightarrow> sync_state \<Rightarrow> ParsedEmail \<Rightarrow> sync_state" where
  "pass3_step e drv uid categorizationResults st email =
     (let categorization = categorization_of categorizationResults email;
          existingByContent =
            list_ex (\<lambda>t. userId t = uid \<and> same_amount (tx_amount t) (amount (parsed email))
                         \<and> rawMerchant t = merchant (parsed email)
                         \<and> same_second e (transactionDate t) (date (parsed email))) (db st);
          row = new_row e uid email categorization
      in if queryThrows drv (db st) (parsed email) then st\<lparr>errors := errors st + 1\<rparr>
         else if existingByContent then st\<lparr>duplicates := duplicates st + 1\<rparr>
         else if list_ex (\<lambda>t. tx_id t = pe_id email) (db st) \<or> insertThrows drv (db st) row
         then st\<lparr>errors := errors st + 1\<rparr>
         else st\<lparr>db := db st @ [row], newTransactions := newTransactions st + 1\<rparr>)"

definition initial_state :: "Transaction list \<Rightarrow> sync_state" where
  "initial_state rows =
     \<lparr>db = rows, newTransactions = 0, duplicates = 0, errors = 0, regexParsed = 0, llmParsed = 0,
      parsedEmails = [], emailsNeedingLLM = [], uuids = 0, regexCalls = [], llmCalls = []\<rparr>"

definition pass1 :: "env \<Rightarrow> (nat \<Rightarrow> jsstring) \<Rightarrow> jsstring \<Rightarrow> Transaction list \<Rightarrow> EmailData list \<Rightarrow> sync_state" where
  "pass1 e uuidv4 uid rows emails = foldl (pass1_step e uuidv4 uid) (initial_state rows) emails"

text \<open>Line 182: what is handed to \<open>batchCategorize\<close>.\<close>

definition transactionsToCategorize :: "ParsedEmail list \<Rightarrow> cat_input list" where
  "transactionsToCategorize es =
     map (\<lambda>em. \<lparr>ci_id = pe_id em, ci_merchant = merchant (parsed em), ci_amount = amount (parsed em),
                ci_type = type (parsed em)\<rparr>) es"

text \<open>
  \<open>POST\<close>, from the fetched emails on, for the user \<open>uid\<close> with the table \<open>rows\<close> and the
  catalog \<open>allCategories\<close>: the state the run ends in. \<open>totalProcessed\<close> is
  \<open>length emails\<close>; the update of the user's \<open>lastSyncAt\<close> is left out.
\<close>

definition POST ::
  "env \<Rightarrow> driver \<Rightarrow> (nat \<Rightarrow> jsstring) \<Rightarrow> llm_oracle \<Rightarrow> cat_oracle \<Rightarrow> Category list \<Rightarrow> jsstring
     \<Rightarrow> jsstring option \<Rightarrow> Transaction list \<Rightarrow> EmailData list \<Rightarrow> sync_state" where
  "POST e drv uuidv4 llm cat allCategories uid openaiApiKey rows emails =
     (let st = pass2 e llm openaiApiKey (pass1 e uuidv4 uid rows emails);
          categorizationResults =
            batchCategorize allCategories cat (transactionsToCategorize (parsedEmails st)) openaiApiKey
      in foldl (pass3_step e drv uid categorizationResults) st (parsedEmails st))"

section \<open>Example inputs\<close>

text \<open>
  A stand-in for \<open>parse\<close> of \<open>date-fns\<close> on the two date strings of the examples, with
  every reading the library has of them among the formats of the source: the token
  \<open>yyyy\<close> takes one to four digits as the year itself, \<open>yy\<close> takes two digits as a year
  of the current century, and \<open>yyyy-MM-dd\<close> reads the first two digits as the year.
\<close>

definition example_dfparse :: "jsstring \<Rightarrow> jsstring \<Rightarrow> jsdate option" where
  "example_dfparse s fmt =
     (if s = str ''05-01-25'' then
        (if fmt = str ''dd-MM-yyyy'' then Some \<lparr>year = 25, month = 1, day = 5, millis = 0\<rparr>
         else if fmt = str ''dd-MM-yy'' then Some \<lparr>year = 2025, month = 1, day = 5, millis = 0\<rparr>
         else if fmt = str ''yyyy-MM-dd'' then Some \<lparr>year = 5, month = 1, day = 25, millis = 0\<rparr>
         else None)
      else if s = str ''04-01-26'' then
        (if fmt = str ''dd-MM-yyyy'' then Some \<lparr>year = 26, month = 1, day = 4, millis = 0\<rparr>
         else if fmt = str ''dd-MM-yy'' then Some \<lparr>year = 2026, month = 1, day = 4, millis = 0\<rparr>
         else if fmt = str ''yyyy-MM-dd'' then Some \<lparr>year = 4, month = 1, day = 26, millis = 0\<rparr>
         else None)
      else None)"

text \<open>\<open>getTime\<close> for a date in UTC: the days since 1 January 1970 of the proleptic
  Gregorian calendar, in milliseconds, and the time of day.\<close>

definition days_from_civil :: "int \<Rightarrow> nat \<Rightarrow> nat \<Rightarrow> int" where
  "days_from_civil y m d =
     (let y' = (if m \<le> 2 then y - 1 else y);
          era = y' div 400;
          yoe = y' - era * 400;
          doy = (153 * (if 2 < m then int m - 3 else int m + 9) + 2) div 5 + int d - 1;
          doe = yoe * 365 + yoe div 4 - yoe div 100 + doy
      in era * 146097 + doe - 719468)"

definition utc_getTime :: "jsdate \<Rightarrow> int" where
  "utc_getTime d = days_from_civil (year d) (month d) (day d) * 86400000 + int (millis d)"

text \<open>The native \<open>new Date(v)\<close> on the strings of the examples: an ISO date, and the
  legacy reading (month, day, year) of the two strings above.\<close>

definition example_nativeDate :: "json \<Rightarrow> jsdate option" where
  "example_nativeDate v =
     (if v = JStr (str ''2026-01-04'') then Some \<lparr>year = 2026, month = 1, day = 4, millis = 0\<rparr>
      else if v = JStr (str ''05-01-25'') then Some \<lparr>year = 2025, month = 5, day = 1, millis = 0\<rparr>
      else if v = JStr (str ''04-01-26'') then Some \<lparr>year = 2026, month = 4, day = 1, millis = 0\<rparr>
      else None)"

text \<open>The platform of the examples, at midnight of 5 January 2026 (UTC).\<close>

definition example_env :: env where
  "example_env =
     \<lparr>now = 1767571200000, getTime = utc_getTime, htmlToText = (\<lambda>s. s),
      dfparse = example_dfparse, nativeDate = example_nativeDate, lowerCaseUnicode = (\<lambda>s. s)\<rparr>"

text \<open>The email of the worked example of the HDFC parser.\<close>

definition example_body :: jsstring where
  "example_body = str ''Rs.169.00 debited from your account to pinelabs.10372375@pineaxis ZEPTO MARKETPLACE PRIVATE LIMITED on 04-01-26''"

text \<open>A catalog, one transaction to categorize, and oracles that answer with a given category
  and confidence.\<close>

definition example_catalog :: "Category list" where
  "example_catalog = [\<lparr>cat_id = str ''c1'', cat_name = str ''Food''\<rparr>, \<lparr>cat_id = str ''c9'', cat_name = str ''Other''\<rparr>]"

definition example_txs :: "cat_input list" where
  "example_txs = [\<lparr>ci_id = str ''t1'', ci_merchant = JStr (str ''ZEPTO''), ci_amount = Fin 16900, ci_type = DEBIT\<rparr>]"

definition reply_record :: "json \<Rightarrow> json \<Rightarrow> batch_cat_reply" where
  "reply_record cid c =
     \<lparr>r_categoryId = cid, r_cleanMerchant = JStr (str ''Zepto''), r_subcategory = JUndefined,
      r_confidence = c, r_id = JStr (str ''t1'')\<rparr>"

definition example_cat_oracle :: "json \<Rightarrow> json \<Rightarrow> cat_oracle" where
  "example_cat_oracle cid c = (\<lambda>k batch. Content [Item (reply_record cid c)])"

definition example_single_oracle :: "json \<Rightarrow> json \<Rightarrow> jsstring \<Rightarrow> int ext \<Rightarrow> TransactionType \<Rightarrow> cat_reply reply" where
  "example_single_oracle cid c =
     (\<lambda>mer amt ty. Content \<lparr>r_categoryId = cid, r_cleanMerchant = JStr (str ''Zepto''),
                             r_subcategory = JUndefined, r_confidence = c\<rparr>)"

section \<open>Auxiliary notions of the proofs\<close>

text \<open>The emails of a run that are parsed or wait for the fallback, but are not yet settled.\<close>

definition pending :: "sync_state \<Rightarrow> nat" where
  "pending st = length (parsedEmails st) + length (emailsNeedingLLM st)"

text \<open>What the second and the third pass leave alone.\<close>

definition same_trace :: "sync_state \<Rightarrow> sync_state \<Rightarrow> bool" where
  "same_trace st st' =
     (regexCalls st' = regexCalls st \<and> emailsNeedingLLM st' = emailsNeedingLLM st)"

text \<open>The records of a reply that the loop over it reads: those before its first \<open>null\<close>
  element.\<close>

fun records_read :: "'a item list \<Rightarrow> 'a list" where
  "records_read [] = []"
| "records_read (NullItem # rs) = []"
| "records_read (Item r # rs) = r # records_read rs"

text \<open>A number of the closed interval from 0 to 1.\<close>

fun in_unit :: "json \<Rightarrow> bool" where
  "in_unit (JNum (Fin x)) = (0 \<le> x \<and> x \<le> 1)"
| "in_unit v = False"

declare categorize_batches.simps [simp del]

declare llm_batches.simps [simp del]

section \<open>Date parsing\<close>

lemma parseDate_loop_find:
  "find (\<lambda>f. dfparse e cleaned f \<noteq> None) fmts = Some fmt \<Longrightarrow> dfparse e cleaned fmt = Some d
   \<Longrightarrow> parseDate_loop e cleaned fmts = Some (fixYear d)"
  by (induction fmts) (auto split: if_splits option.splits)

lemma fixYear_year:
  "fixYear d = d\<lparr>year := year d + (if year d < 100 then 2000 else if year d < 1900 then 2000
                                     else if year d < 2000 then 100 else 0)\<rparr>"
  by (simp add: fixYear_def Let_def)

lemma example_date_trim: "trim (str ''05-01-25'') = str ''05-01-25''"
  by code_simp

lemma example_date_nonempty: "str ''05-01-25'' \<noteq> []"
  by (simp add: str_def)

text \<open>
  C9. After a format matches (the first of \<open>DATE_FORMATS\<close> that \<open>date-fns\<close> parses to a
  valid date), \<open>parseDate\<close> returns that date with the year shifted: below 100 by 2000,
  from 1900 to 1999 by 100, below 1900 by 2000, and otherwise not at all. And when the
  first format that matches \<open>05-01-25\<close> reads it as the fifth of January of the year 25,
  1925 or 2025 (the readings the source names), \<open>parseDate\<close> returns the fifth of
  January 2025.
\<close>

theorem parseDate_year_normalized:
  "(dateStr \<noteq> [] \<and> find (\<lambda>f. dfparse e (trim dateStr) f \<noteq> None) DATE_FORMATS = Some fmt
      \<and> dfparse e (trim dateStr) fmt = Some d
    \<longrightarrow> parseDate e dateStr =
          Some (d\<lparr>year := year d + (if year d < 100 then 2000 else if year d < 1900 then 2000
                                     else if year d < 2000 then 100 else 0)\<rparr>))
   \<and> (find (\<lambda>f. dfparse e (str ''05-01-25'') f \<noteq> None) DATE_FORMATS = Some fmt'
       \<and> dfparse e (str ''05-01-25'') fmt' = Some p
       \<and> day p = 5 \<and> month p = 1 \<and> year p \<in> {25, 1925, 2025}
    \<longrightarrow> parseDate e (str ''05-01-25'') = Some (p\<lparr>year := 2025\<rparr>)
        \<and> day (p\<lparr>year := 2025\<rparr>) = 5 \<and> month (p\<lparr>year := 2025\<rparr>) = 1
        \<and> year (p\<lparr>year := 2025\<rparr>) = 2025)"
proof (intro conjI impI)
  assume a: "dateStr \<noteq> [] \<and> find (\<lambda>f. dfparse e (trim dateStr) f \<noteq> None) DATE_FORMATS = Some fmt
      \<and> dfparse e (trim dateStr) fmt = Some d"
  then have "parseDate_loop e (trim dateStr) DATE_FORMATS = Some (fixYear d)"
    by (simp add: parseDate_loop_find)
  with a show "parseDate e dateStr =
          Some (d\<lparr>year := year d + (if year d < 100 then 2000 else if year d < 1900 then 2000
                                     else if year d < 2000 then 100 else 0)\<rparr>)"
    by (simp add: parseDate_def fixYear_year)
next
  assume a: "find (\<lambda>f. dfparse e (str ''05-01-25'') f \<noteq> None) DATE_FORMATS = Some fmt'
       \<and> dfparse e (str ''05-01-25'') fmt' = Some p
       \<and> day p = 5 \<and> month p = 1 \<and> year p \<in> {25, 1925, 2025}"
  then have "parseDate_loop e (str ''05-01-25'') DATE_FORMATS = Some (fixYear p)"
    by (simp add: parseDate_loop_find)
  moreover from a have "fixYear p = p\<lparr>year := 2025\<rparr>"
    by (auto simp: fixYear_def)
  ultimately show "parseDate e (str ''05-01-25'') = Some (p\<lparr>year := 2025\<rparr>)"
    by (simp add: parseDate_def example_date_trim example_date_nonempty)
qed simp_all

theorem parseDate_year_normalized_witness:
  "parseDate example_env (str ''05-01-25'') = Some \<lparr>year = 25 + 2000, month = 1, day = 5, millis = 0\<rparr>
   \<and> parseDate example_env (str ''05-01-25'') = Some \<lparr>year = 2025, month = 1, day = 5, millis = 0\<rparr>"
proof -
  have f: "find (\<lambda>f. dfparse example_env (str ''05-01-25'') f \<noteq> None) DATE_FORMATS = Some (str ''dd-MM-yyyy'')"
    by (simp add: example_env_def example_dfparse_def DATE_FORMATS_def str_def asc_def)
  have p: "dfparse example_env (str ''05-01-25'') (str ''dd-MM-yyyy'') = Some \<lparr>year = 25, month = 1, day = 5, millis = 0\<rparr>"
    by (simp add: example_env_def example_dfparse_def)
  show ?thesis
    using parseDate_year_normalized [of "str ''05-01-25''" example_env "str ''dd-MM-yyyy''"
        "\<lparr>year = 25, month = 1, day = 5, millis = 0\<rparr>" "str ''dd-MM-yyyy''"
        "\<lparr>year = 25, month = 1, day = 5, millis = 0\<rparr>"] f p
    by (simp add: example_date_trim example_date_nonempty)
qed

section \<open>The worked example, evaluated\<close>

lemma example_not_html: "rx_test False html_tag_re example_body = False"
  by code_simp

lemma example_cleanText: "cleanText example_body = example_body"
  by code_simp

lemma example_text: "extractEmailText e example_body = example_body"
  by (simp add: extractEmailText_def example_not_html example_cleanText)

lemma example_ascii: "list_all (\<lambda>c. unit_val c < 128) example_body"
  by code_simp

lemma example_lower: "toLowerCase e example_body = map lowerChar example_body"
  by (simp add: toLowerCase_def example_ascii)

lemma example_keywords:
  "\<not> str_includes (map lowerChar example_body) (str ''was declined'')"
  "\<not> str_includes (map lowerChar example_body) (str ''failed'')"
  "\<not> str_includes (map lowerChar example_body) (str ''unsuccessful'')"
  "str_includes (map lowerChar example_body) (str ''debited'')"
  by code_simp+

lemma example_amount_match:
  "rx_match True hdfc_amount_re example_body = Some [Some (str ''Rs.169.00''), Some (str ''169.00'')]"
  by code_simp

lemma example_amount_commas: "replace_all False (Chr CHR '','') [] (str ''169.00'') = str ''169.00''"
  by code_simp

lemma digit_plain:
  assumes "is_digit c"
  shows "c \<noteq> asc CHR ''-''" "c \<noteq> asc CHR ''+''" "c \<noteq> asc CHR ''I''" "\<not> is_space c"
  using assms by (auto simp: is_digit_def str_def asc_def is_space_def white_space_def)

lemma dot_not_digit: "\<not> is_digit (asc CHR ''.'')"
  by (simp add: is_digit_def str_def asc_def)

text \<open>The value of digits, a dot and digits.\<close>

lemma scan_decimal_plain:
  assumes ip: "list_all is_digit ip" "ip \<noteq> []" and fp: "list_all is_digit fp"
  shows "scan_decimal (ip @ asc CHR ''.'' # fp) = (Fin (real (digits_val (ip @ fp)) / 10 ^ length fp), [])"
proof -
  obtain c cs where c: "ip = c # cs" using ip(2) by (cases ip) auto
  with ip(1) have d: "is_digit c" by simp
  let ?t = "ip @ asc CHR ''.'' # fp"
  have i: "\<not> startsWith ?t (str ''Infinity'')"
    using digit_plain(3) [OF d] by (auto simp: startsWith_def c str_def)
  have all: "\<And>x. x \<in> set ip \<Longrightarrow> is_digit x" "\<And>x. x \<in> set fp \<Longrightarrow> is_digit x"
    using ip(1) fp by (simp_all add: list_all_iff)
  have t1: "takeWhile is_digit ?t = ip"
    using all(1) by (simp add: takeWhile_append2 dot_not_digit)
  have d1: "dropWhile is_digit ?t = asc CHR ''.'' # fp"
    using all(1) by (simp add: dropWhile_append2 dot_not_digit)
  have t2: "takeWhile is_digit fp = fp" and d2: "dropWhile is_digit fp = []"
    using all(2) by simp_all
  have u: "(case ?t of [] \<Rightarrow> ?t | x # xs \<Rightarrow> if x = asc CHR ''-'' \<or> x = asc CHR ''+'' then xs else ?t) = ?t"
    and n: "(case ?t of [] \<Rightarrow> False | x # xs \<Rightarrow> x = asc CHR ''-'') = False"
    using digit_plain(1,2) [OF d] by (simp_all add: c)
  show ?thesis
    unfolding scan_decimal_def u n Let_def
    using i ip(2) by (simp add: t1 d1 t2 d2 scan_exponent_def pow10_def)
qed

lemma parseFloat_plain:
  assumes "list_all is_digit ip" "ip \<noteq> []" "list_all is_digit fp"
  shows "parseFloat (ip @ asc CHR ''.'' # fp) = Fin (real (digits_val (ip @ fp)) / 10 ^ length fp)"
proof -
  obtain c cs where c: "ip = c # cs" using assms(2) by (cases ip) auto
  with assms(1) have "\<not> is_space c" by (simp add: digit_plain)
  then have "dropWhile is_space (ip @ asc CHR ''.'' # fp) = ip @ asc CHR ''.'' # fp"
    by (simp add: c)
  then show ?thesis
    by (simp add: parseFloat_def scan_decimal_plain [OF assms])
qed

lemma example_amount_digits:
  "list_all is_digit (str ''169'')" "list_all is_digit (str ''00'')"
  "digits_val (str ''169'' @ str ''00'') = 16900"
  by code_simp+

lemma example_amount_number: "parseFloat (str ''169.00'') = Fin 169"
proof -
  have s: "str ''169.00'' = str ''169'' @ asc CHR ''.'' # str ''00''"
    by (simp add: str_def)
  have n: "str ''169'' \<noteq> []" "length (str ''00'') = 2"
    by (simp_all add: str_def)
  show ?thesis
    unfolding s by (simp add: parseFloat_plain example_amount_digits n)
qed

lemma example_hdfc_amount: "hdfc_amount example_body = Some (Fin 16900)"
  by (simp add: hdfc_amount_def example_amount_match grp_def example_amount_commas
        example_amount_number Math_round_def scale_def falsy_num_def)

lemma example_upi_match:
  "rx_match True hdfc_upi_to_merchant_re example_body =
     Some [Some (str ''to pinelabs.10372375@pineaxis ZEPTO MARKETPLACE PRIVATE LIMITED on 0''),
           Some (str ''pinelabs.10372375@pineaxis''), Some (str ''ZEPTO MARKETPLACE PRIVATE LIMITED'')]"
  by code_simp

lemma example_upi_ref: "rx_match True hdfc_upi_ref_re example_body = None"
  by code_simp

lemma example_trim:
  "trim (str ''ZEPTO MARKETPLACE PRIVATE LIMITED'') = str ''ZEPTO MARKETPLACE PRIVATE LIMITED''"
  by code_simp

lemma example_merchant_clean:
  "hdfc_cleanMerchantName (str ''ZEPTO MARKETPLACE PRIVATE LIMITED'') = str ''ZEPTO MARKETPLACE PRIVATE LIMITED''"
  by code_simp

lemma example_merchant_known:
  "str ''ZEPTO MARKETPLACE PRIVATE LIMITED'' \<noteq> str ''Unknown''"
  by (simp add: str_def)

lemma example_upi_text:
  "str ''UPI/'' @ str ''pinelabs.10372375@pineaxis'' = str ''UPI/pinelabs.10372375@pineaxis''"
  "str ''UPI/pinelabs.10372375@pineaxis'' \<noteq> []"
  by (simp_all add: str_def)

lemma example_merchant_reference:
  "hdfc_merchant_reference example_body =
     (str ''ZEPTO MARKETPLACE PRIVATE LIMITED'', Some (str ''UPI/pinelabs.10372375@pineaxis''))"
  by (simp add: hdfc_merchant_reference_def Let_def example_upi_match example_upi_ref grp_def
        example_trim falsy_str_def example_merchant_known example_upi_text)

lemma example_parse:
  "parseHDFCEmail e example_body subject emailDate =
     parse_success
       \<lparr>amount = Fin 16900, type = DEBIT, merchant = JStr (str ''ZEPTO MARKETPLACE PRIVATE LIMITED''),
        date = (case extractDate e example_body of Some d \<Rightarrow> Some d | None \<Rightarrow> emailDate),
        reference = JStr (str ''UPI/pinelabs.10372375@pineaxis''), bank = HDFC,
        confidence = hdfc_calculateConfidence e (Fin 16900) (str ''ZEPTO MARKETPLACE PRIVATE LIMITED'')
                       (case extractDate e example_body of Some d \<Rightarrow> Some d | None \<Rightarrow> emailDate)\<rparr>"
  by (simp add: parseHDFCEmail_def Let_def example_text example_lower example_keywords example_hdfc_amount
        example_merchant_reference example_merchant_clean nullable_def)

text \<open>The date of the example, on the platform of the examples.\<close>

lemma example_date_matches:
  "rx_match (fst (date_patterns ! 0)) (snd (date_patterns ! 0)) example_body = None"
  "rx_match (fst (date_patterns ! 1)) (snd (date_patterns ! 1)) example_body
     = Some [Some (str ''04-01-26''), Some (str ''04-01-26'')]"
  by code_simp+

lemma example_date_trim2: "trim (str ''04-01-26'') = str ''04-01-26''"
  by code_simp

lemma example_parseDate:
  "parseDate example_env (str ''04-01-26'') = Some \<lparr>year = 2026, month = 1, day = 4, millis = 0\<rparr>"
proof -
  have "parseDate_loop example_env (str ''04-01-26'') DATE_FORMATS
          = Some \<lparr>year = 2026, month = 1, day = 4, millis = 0\<rparr>"
    by (simp add: DATE_FORMATS_def example_env_def example_dfparse_def fixYear_def str_def asc_def)
  moreover have "str ''04-01-26'' \<noteq> []"
    by (simp add: str_def)
  ultimately show ?thesis
    by (simp add: parseDate_def example_date_trim2)
qed

lemma example_extractDate:
  "extractDate example_env example_body = Some \<lparr>year = 2026, month = 1, day = 4, millis = 0\<rparr>"
proof -
  obtain c0 p0 c1 p1 where q: "date_patterns ! 0 = (c0, p0)" "date_patterns ! 1 = (c1, p1)"
    by (metis surj_pair)
  have p: "date_patterns = (c0, p0) # (c1, p1) # drop 2 date_patterns"
    using q by (simp add: date_patterns_def)
  from example_date_matches q have "rx_match c0 p0 example_body = None"
    "rx_match c1 p1 example_body = Some [Some (str ''04-01-26''), Some (str ''04-01-26'')]"
    by simp_all
  then have "extractDate_loop example_env ((c0, p0) # (c1, p1) # drop 2 date_patterns) example_body
          = Some \<lparr>year = 2026, month = 1, day = 4, millis = 0\<rparr>"
    by (simp add: grp_def example_parseDate)
  then show ?thesis
    unfolding extractDate_def by (subst p) simp
qed

lemma example_confidence:
  "hdfc_calculateConfidence example_env (Fin 16900) (str ''ZEPTO MARKETPLACE PRIVATE LIMITED'')
     (Some \<lparr>year = 2026, month = 1, day = 4, millis = 0\<rparr>) = 1"
  by (simp add: hdfc_calculateConfidence_def Let_def positive_def example_merchant_known
        example_env_def utc_getTime_def days_from_civil_def)

text \<open>
  C8. On every platform, with any subject and email date, the HDFC parser succeeds on the
  body of the worked example and returns the amount 16900 paise, the type debit, the
  merchant \<open>ZEPTO MARKETPLACE PRIVATE LIMITED\<close> and the reference
  \<open>UPI/pinelabs.10372375@pineaxis\<close>.
\<close>

theorem hdfc_worked_example:
  "example_body = str ''Rs.169.00 debited from your account to pinelabs.10372375@pineaxis ZEPTO MARKETPLACE PRIVATE LIMITED on 04-01-26''
   \<and> success (parseHDFCEmail e example_body subject emailDate)
   \<and> error (parseHDFCEmail e example_body subject emailDate) = None
   \<and> (\<exists>t. transaction (parseHDFCEmail e example_body subject emailDate) = Some t
          \<and> amount t = Fin 16900 \<and> type t = DEBIT
          \<and> merchant t = JStr (str ''ZEPTO MARKETPLACE PRIVATE LIMITED'')
          \<and> reference t = JStr (str ''UPI/pinelabs.10372375@pineaxis'')
          \<and> bank t = HDFC)"
  by (simp add: example_parse parse_success_def) (simp add: example_body_def)

section \<open>Invariants of the batch categorization\<close>

lemma categorize_results_all:
  assumes "\<And>j w. results j = Some w \<Longrightarrow> P w"
    and "\<And>r. r \<in> set (records_read rs) \<Longrightarrow> P (categorize_result cats batch r)"
    and "snd (categorize_results cats batch rs results) i = Some v"
  shows "P v"
  using assms
proof (induction rs arbitrary: results)
  case Nil
  then show ?case by simp
next
  case (Cons x rs)
  show ?case
  proof (cases x)
    case NullItem
    with Cons.prems(1,3) show ?thesis by simp
  next
    case (Item r)
    let ?m = "results(r_id r \<mapsto> categorize_result cats batch r)"
    have m: "P w" if "?m j = Some w" for j w
      using that Cons.prems(1) [of j w] Cons.prems(2) [of r] Item by (cases "j = r_id r") simp_all
    have s: "snd (categorize_results cats batch rs ?m) i = Some v"
      using Cons.prems(3) Item by simp
    have r: "P (categorize_result cats batch r')" if "r' \<in> set (records_read rs)" for r'
      using that Cons.prems(2) [of r'] Item by simp
    from Cons.IH [of ?m, OF m r s] show ?thesis .
  qed
qed

lemma categorize_missing_all:
  assumes "\<And>j w. results j = Some w \<Longrightarrow> P w"
    and "\<And>mer. P (default_categorization cats mer)"
    and "categorize_missing cats batch results i = Some v"
  shows "P v"
  using assms
proof (induction batch arbitrary: results)
  case Nil
  then show ?case by simp
next
  case (Cons tx batch)
  let ?k = "JStr (ci_id tx)"
  let ?m = "if results ?k = None
            then results(?k \<mapsto> default_categorization cats (ci_merchant tx)) else results"
  have m: "P w" if "?m j = Some w" for j w
    using that Cons.prems(1) [of j w] Cons.prems(2) [of "ci_merchant tx"]
    by (cases "j = ?k"; cases "results ?k = None") simp_all
  have s: "categorize_missing cats batch ?m i = Some v"
    using Cons.prems(3) by simp
  from Cons.IH [of ?m, OF m Cons.prems(2) s] show ?case .
qed

lemma categorize_batch_all:
  assumes "\<And>j w. results j = Some w \<Longrightarrow> P w"
    and "\<And>mer. P (default_categorization cats mer)"
    and "\<And>rs r. orc k batch = Content rs \<Longrightarrow> r \<in> set (records_read rs) \<Longrightarrow> P (categorize_result cats batch r)"
    and "categorize_batch cats orc k batch results i = Some v"
  shows "P v"
proof (cases "orc k batch")
  case (Throws msg)
  with assms(4) have "categorize_missing cats batch results i = Some v"
    by (simp add: categorize_batch_def)
  from categorize_missing_all [of results P, OF assms(1) assms(2) this] show ?thesis .
next
  case Empty
  with assms(4) have "categorize_missing cats batch results i = Some v"
    by (simp add: categorize_batch_def)
  from categorize_missing_all [of results P, OF assms(1) assms(2) this] show ?thesis .
next
  case (Content rs)
  let ?m = "snd (categorize_results cats batch rs results)"
  have m: "P w" if "?m j = Some w" for j w
    using categorize_results_all [of results P rs cats batch j w] assms(1) assms(3) [OF Content] that
    by blast
  from Content assms(4) have "categorize_missing cats batch ?m i = Some v"
    by (simp add: categorize_batch_def)
  from categorize_missing_all [of ?m P, OF m assms(2) this] show ?thesis .
qed

text \<open>The batch of the request number \<open>j\<close>.\<close>

lemma categorize_batches_all:
  assumes "\<And>mer. P (default_categorization cats mer)"
    and "\<And>j w. results j = Some w \<Longrightarrow> P w"
    and "\<And>j rs r. CAT_BATCH_SIZE * j < length txs
           \<Longrightarrow> orc (k + j) (take CAT_BATCH_SIZE (drop (CAT_BATCH_SIZE * j) txs)) = Content rs
           \<Longrightarrow> r \<in> set (records_read rs)
           \<Longrightarrow> P (categorize_result cats (take CAT_BATCH_SIZE (drop (CAT_BATCH_SIZE * j) txs)) r)"
    and "categorize_batches cats orc k txs results i = Some v"
  shows "P v"
  using assms(2,3,4)
proof (induction "length txs" arbitrary: txs k results rule: less_induct)
  case less
  show ?case
  proof (cases "txs = []")
    case True
    with less.prems(3) have "results i = Some v"
      by (subst (asm) categorize_batches.simps) simp
    then show ?thesis by (rule less.prems(1))
  next
    case False
    let ?b = "take CAT_BATCH_SIZE txs"
    let ?m = "categorize_batch cats orc k ?b results"
    have r0: "P (categorize_result cats ?b r)" if "orc k ?b = Content rs" "r \<in> set (records_read rs)" for rs r
      using less.prems(2) [of 0 rs r] that False by simp
    have m: "P w" if "?m j = Some w" for j w
      using categorize_batch_all [of results P cats orc k ?b j w] less.prems(1) assms(1) r0 that
      by blast
    have l: "length (drop CAT_BATCH_SIZE txs) < length txs"
      using False by (simp add: CAT_BATCH_SIZE_def)
    have s: "categorize_batches cats orc (Suc k) (drop CAT_BATCH_SIZE txs) ?m i = Some v"
      using less.prems(3) False by (subst (asm) categorize_batches.simps) (simp add: Let_def)
    have r: "P (categorize_result cats (take CAT_BATCH_SIZE (drop (CAT_BATCH_SIZE * j) (drop CAT_BATCH_SIZE txs))) r)"
      if "CAT_BATCH_SIZE * j < length (drop CAT_BATCH_SIZE txs)"
        "orc (Suc k + j) (take CAT_BATCH_SIZE (drop (CAT_BATCH_SIZE * j) (drop CAT_BATCH_SIZE txs))) = Content rs"
        "r \<in> set (records_read rs)" for j rs r
    proof -
      have d: "drop (CAT_BATCH_SIZE * j) (drop CAT_BATCH_SIZE txs) = drop (CAT_BATCH_SIZE * Suc j) txs"
        by (simp add: add.commute)
      have "CAT_BATCH_SIZE * Suc j < length txs"
        using that(1) by simp
      from less.prems(2) [of "Suc j" rs r, OF this] that(2,3) show ?thesis
        unfolding d by simp
    qed
    from less.hyps [OF l m r s] show ?thesis .
  qed
qed

lemma foldl_default_all:
  assumes "\<And>j w. results j = Some w \<Longrightarrow> P w"
    and "\<And>mer. P (default_categorization cats mer)"
    and "foldl (\<lambda>results tx. results(JStr (ci_id tx) \<mapsto> default_categorization cats (ci_merchant tx)))
           results txs i = Some v"
  shows "P v"
  using assms(1,3)
proof (induction txs arbitrary: results)
  case Nil
  then show ?case by simp
next
  case (Cons a txs)
  let ?m = "results(JStr (ci_id a) \<mapsto> default_categorization cats (ci_merchant a))"
  have m: "P w" if "?m j = Some w" for j w
    using that Cons.prems(1) [of j w] assms(2) [of "ci_merchant a"] by (cases "j = JStr (ci_id a)") simp_all
  from Cons.IH [of ?m, OF m] Cons.prems(2) show ?case by simp
qed

lemma batchCategorize_all:
  assumes "\<And>mer. P (default_categorization cats mer)"
    and "\<And>j rs r. \<not> falsy_str key \<Longrightarrow> CAT_BATCH_SIZE * j < length txs
           \<Longrightarrow> orc j (take CAT_BATCH_SIZE (drop (CAT_BATCH_SIZE * j) txs)) = Content rs
           \<Longrightarrow> r \<in> set (records_read rs)
           \<Longrightarrow> P (categorize_result cats (take CAT_BATCH_SIZE (drop (CAT_BATCH_SIZE * j) txs)) r)"
    and "batchCategorize cats orc txs key i = Some v"
  shows "P v"
proof (cases "falsy_str key \<or> txs = []")
  case True
  with assms(3) have "foldl (\<lambda>results tx. results(JStr (ci_id tx) \<mapsto> default_categorization cats (ci_merchant tx)))
           Map.empty txs i = Some v"
    by (simp add: batchCategorize_def)
  from foldl_default_all [of Map.empty P, OF _ assms(1) this] show ?thesis by simp
next
  case False
  with assms(3) have c: "categorize_batches cats orc 0 txs Map.empty i = Some v"
    by (simp add: batchCategorize_def)
  have r: "P (categorize_result cats (take CAT_BATCH_SIZE (drop (CAT_BATCH_SIZE * j) txs)) r)"
    if "CAT_BATCH_SIZE * j < length txs"
       "orc (0 + j) (take CAT_BATCH_SIZE (drop (CAT_BATCH_SIZE * j) txs)) = Content rs"
       "r \<in> set (records_read rs)" for j rs r
    using assms(2) [of j rs r] that False by simp
  from categorize_batches_all [of P cats Map.empty txs orc 0 i v, OF assms(1) _ r c] show ?thesis by simp
qed

lemma or_else_in_unit:
  "(truthy v \<Longrightarrow> in_unit v) \<Longrightarrow> in_unit (or_else v (JNum (Fin 0.7)))"
  by (simp add: or_else_def)

lemma capped_in_unit:
  "\<not> negative x \<Longrightarrow> in_unit (or_else (JNum (Math_min x (Fin 0.5))) (JNum (Fin 0.7)))"
  by (cases x) (simp_all add: or_else_def Math_min_def negative_def min_def)

lemma categorize_batches_single:
  assumes "txs \<noteq> []" "length txs \<le> CAT_BATCH_SIZE"
  shows "categorize_batches cats orc k txs results = categorize_batch cats orc k txs results"
proof -
  have "categorize_batches cats orc (Suc k) [] r = r" for r
    by (subst categorize_batches.simps) simp
  then show ?thesis
    using assms by (subst categorize_batches.simps) (simp add: Let_def)
qed

lemma hdfc_confidence_range:
  "0 \<le> hdfc_calculateConfidence e amt mer dt \<and> hdfc_calculateConfidence e amt mer dt \<le> 1"
  by (simp add: hdfc_calculateConfidence_def Let_def)

lemma sib_confidence_range:
  "0 \<le> sib_calculateConfidence e amt mer dt \<and> sib_calculateConfidence e amt mer dt \<le> 1"
  by (simp add: sib_calculateConfidence_def Let_def)

lemma generic_confidence_range:
  "0 \<le> generic_calculateConfidence e amt mer dt text \<and> generic_calculateConfidence e amt mer dt text \<le> 1"
  by (simp add: generic_calculateConfidence_def Let_def)

lemma parseHDFCEmail_range:
  assumes "transaction (parseHDFCEmail e body subject dt) = Some t"
  shows "0 \<le> confidence t \<and> confidence t \<le> 1"
  using assms [symmetric]
  unfolding parseHDFCEmail_def Let_def parse_failure_def parse_success_def
  by (simp add: hdfc_confidence_range split: if_split_asm option.split_asm)

lemma parseSIBEmail_range:
  assumes "transaction (parseSIBEmail e body subject dt) = Some t"
  shows "0 \<le> confidence t \<and> confidence t \<le> 1"
  using assms [symmetric]
  unfolding parseSIBEmail_def Let_def parse_failure_def parse_success_def
  by (simp add: sib_confidence_range split: if_split_asm option.split_asm)

lemma parseGenericBankEmail_range:
  assumes "transaction (parseGenericBankEmail e body subject dt bk) = Some t"
  shows "0 \<le> confidence t \<and> confidence t \<le> 1"
  using assms [symmetric]
  unfolding parseGenericBankEmail_def Let_def parse_failure_def parse_success_def
  by (simp add: generic_confidence_range split: if_split_asm option.split_asm)

lemma bank_parser_confidence_range:
  assumes "transaction (bank_parser e body subject dt bk) = Some t"
  shows "0 \<le> confidence t \<and> confidence t \<le> 1"
proof -
  consider "bk = HDFC" | "bk = SIB" | "bk \<noteq> HDFC" "bk \<noteq> SIB" by blast
  then show ?thesis
  proof cases
    case 1
    with assms show ?thesis by (simp add: bank_parser_def parseHDFCEmail_range)
  next
    case 2
    with assms show ?thesis by (simp add: bank_parser_def parseSIBEmail_range)
  next
    case 3
    with assms have "transaction (parseGenericBankEmail e body subject dt bk) = Some t"
      by (cases bk) (simp_all add: bank_parser_def)
    then show ?thesis by (rule parseGenericBankEmail_range)
  qed
qed

text \<open>
  C5, as amended. The confidence of every transaction a bank parser returns (HDFC, SIB or
  generic) lies in \<open>[0, 1]\<close>. The confidence of every result of \<open>batchCategorize\<close> lies in
  \<open>[0, 1]\<close> provided that, in the replies to the requests it makes, every record it reads
  that names a category of the catalog reports a confidence that is falsy or a number of
  \<open>[0, 1]\<close>. The confidence \<open>categorizeTransaction\<close> returns lies in \<open>[0, 1]\<close> provided the
  reply to its request reports such a confidence when it names a category of the catalog,
  and a confidence that does not convert to a negative number when it names none.
\<close>

theorem confidence_in_unit_interval:
  "(\<forall>t. transaction (bank_parser e body subject dt bk) = Some t \<longrightarrow> 0 \<le> confidence t \<and> confidence t \<le> 1)
   \<and> ((\<forall>j rs r. \<not> falsy_str key \<and> CAT_BATCH_SIZE * j < length txs
                 \<and> orc j (take CAT_BATCH_SIZE (drop (CAT_BATCH_SIZE * j) txs)) = Content rs
                 \<and> r \<in> set (records_read rs) \<and> valid_category cats (r_categoryId r)
                 \<and> truthy (r_confidence r)
              \<longrightarrow> in_unit (r_confidence r))
       \<longrightarrow> (\<forall>i res. batchCategorize cats orc txs key i = Some res \<longrightarrow> in_unit (c_confidence res)))
   \<and> ((\<forall>p. \<not> falsy_str key \<and> sorc mer amt ty = Content p
             \<longrightarrow> (if valid_category cats (r_categoryId p)
                  then truthy (r_confidence p) \<longrightarrow> in_unit (r_confidence p)
                  else \<not> negative (toNumber (r_confidence p))))
       \<longrightarrow> in_unit (c_confidence (categorizeTransaction cats sorc mer amt ty key)))"
proof (intro conjI impI allI)
  fix t assume "transaction (bank_parser e body subject dt bk) = Some t"
  then have "0 \<le> confidence t \<and> confidence t \<le> 1" by (rule bank_parser_confidence_range)
  then show "0 \<le> confidence t" and "confidence t \<le> 1" by simp_all
next
  fix i res
  assume o: "\<forall>j rs r. \<not> falsy_str key \<and> CAT_BATCH_SIZE * j < length txs
                 \<and> orc j (take CAT_BATCH_SIZE (drop (CAT_BATCH_SIZE * j) txs)) = Content rs
                 \<and> r \<in> set (records_read rs) \<and> valid_category cats (r_categoryId r)
                 \<and> truthy (r_confidence r)
              \<longrightarrow> in_unit (r_confidence r)"
    and b: "batchCategorize cats orc txs key i = Some res"
  let ?P = "\<lambda>v. in_unit (c_confidence v)"
  have d: "?P (default_categorization cats m)" for m
    by (simp add: default_categorization_def)
  have r: "?P (categorize_result cats (take CAT_BATCH_SIZE (drop (CAT_BATCH_SIZE * j) txs)) r)"
    if "\<not> falsy_str key" "CAT_BATCH_SIZE * j < length txs"
       "orc j (take CAT_BATCH_SIZE (drop (CAT_BATCH_SIZE * j) txs)) = Content rs"
       "r \<in> set (records_read rs)" for j rs r
  proof (cases "valid_category cats (r_categoryId r)")
    case True
    with o that have "truthy (r_confidence r) \<Longrightarrow> in_unit (r_confidence r)" by blast
    with True show ?thesis by (simp add: categorize_result_def Let_def or_else_in_unit)
  next
    case False
    then show ?thesis by (simp add: categorize_result_def Let_def)
  qed
  show "in_unit (c_confidence res)"
    by (rule batchCategorize_all [of ?P, OF d r b])
next
  assume o: "\<forall>p. \<not> falsy_str key \<and> sorc mer amt ty = Content p
             \<longrightarrow> (if valid_category cats (r_categoryId p)
                  then truthy (r_confidence p) \<longrightarrow> in_unit (r_confidence p)
                  else \<not> negative (toNumber (r_confidence p)))"
  show "in_unit (c_confidence (categorizeTransaction cats sorc mer amt ty key))"
  proof (cases "falsy_str key")
    case True
    then show ?thesis by (simp add: categorizeTransaction_def default_categorization_def)
  next
    case False
    show ?thesis
    proof (cases "sorc mer amt ty")
      case (Throws msg)
      with False show ?thesis by (simp add: categorizeTransaction_def default_categorization_def)
    next
      case Empty
      with False show ?thesis by (simp add: categorizeTransaction_def default_categorization_def)
    next
      case (Content p)
      show ?thesis
      proof (cases "valid_category cats (r_categoryId p)")
        case True
        with o False Content have "truthy (r_confidence p) \<Longrightarrow> in_unit (r_confidence p)" by simp
        with True False Content show ?thesis
          by (simp add: categorizeTransaction_def Let_def or_else_in_unit)
      next
        case inv: False
        with o False Content have "\<not> negative (toNumber (r_confidence p))" by simp
        with inv False Content capped_in_unit [of "toNumber (r_confidence p)"] show ?thesis
          by (simp add: categorizeTransaction_def Let_def)
      qed
    qed
  qed
qed

lemma example_batch:
  "batchCategorize example_catalog (example_cat_oracle cid c) example_txs (Some (str ''sk'')) (JStr (str ''t1''))
     = Some (categorize_result example_catalog example_txs (reply_record cid c))"
proof -
  have "example_txs \<noteq> []" "length example_txs \<le> CAT_BATCH_SIZE"
    by (simp_all add: example_txs_def CAT_BATCH_SIZE_def)
  then have "batchCategorize example_catalog (example_cat_oracle cid c) example_txs (Some (str ''sk''))
      = categorize_batch example_catalog (example_cat_oracle cid c) 0 example_txs Map.empty"
    by (simp add: batchCategorize_def falsy_str_def categorize_batches_single str_def)
  moreover have "categorize_batch example_catalog (example_cat_oracle cid c) 0 example_txs Map.empty (JStr (str ''t1''))
      = Some (categorize_result example_catalog example_txs (reply_record cid c))"
    by (simp add: categorize_batch_def example_cat_oracle_def example_txs_def reply_record_def)
  ultimately show ?thesis by simp
qed

lemma example_valid: "valid_category example_catalog (JStr (str ''c1''))"
  and example_invalid: "\<not> valid_category example_catalog (JStr (str ''zz''))"
  and example_other: "other_id example_catalog = JStr (str ''c9'')"
  by (simp_all add: valid_category_def other_id_def example_catalog_def or_else_def str_def asc_def)

lemma example_key: "\<not> falsy_str (Some (str ''sk''))"
  by (simp add: falsy_str_def str_def)

text \<open>
  C5 as stated fails: an oracle that reports the confidence 5 for a category of the catalog
  makes \<open>batchCategorize\<close> return the confidence 5.
\<close>

theorem oracle_confidence_counterexample:
  "map_option c_confidence
     (batchCategorize example_catalog (example_cat_oracle (JStr (str ''c1'')) (JNum (Fin 5))) example_txs
        (Some (str ''sk'')) (JStr (str ''t1'')))
     = Some (JNum (Fin 5)) \<and> \<not> in_unit (JNum (Fin 5))"
  unfolding example_batch
  by (simp add: categorize_result_def reply_record_def example_valid or_else_def Let_def)

text \<open>
  C7 fails on the code. With a category id outside the catalog, \<open>categorizeTransaction\<close>
  takes the smaller of the reported confidence and 0.5 and then replaces a falsy result by
  0.7: a reported 0 (or none) comes out as 0.7, above the cap, while a reported 0.2 is kept.
  For the same reply record \<open>batchCategorize\<close> stores 0.5, so it does not keep the 0.2.
\<close>

theorem invalid_category_cap_missed:
  "\<not> valid_category example_catalog (JStr (str ''zz''))
   \<and> c_confidence (categorizeTransaction example_catalog
        (example_single_oracle (JStr (str ''zz'')) (JNum (Fin 0))) (str ''ZEPTO'') (Fin 16900) DEBIT
        (Some (str ''sk''))) = JNum (Fin (7 / 10))
   \<and> c_confidence (categorizeTransaction example_catalog
        (example_single_oracle (JStr (str ''zz'')) JUndefined) (str ''ZEPTO'') (Fin 16900) DEBIT
        (Some (str ''sk''))) = JNum (Fin (7 / 10))
   \<and> c_confidence (categorizeTransaction example_catalog
        (example_single_oracle (JStr (str ''zz'')) (JNum (Fin (1 / 5)))) (str ''ZEPTO'') (Fin 16900) DEBIT
        (Some (str ''sk''))) = JNum (Fin (1 / 5))
   \<and> map_option c_confidence
       (batchCategorize example_catalog (example_cat_oracle (JStr (str ''zz'')) (JNum (Fin (1 / 5))))
          example_txs (Some (str ''sk'')) (JStr (str ''t1''))) = Some (JNum (Fin (1 / 2)))"
  unfolding example_batch
  by (simp add: categorizeTransaction_def example_single_oracle_def categorize_result_def
        reply_record_def example_invalid example_key or_else_def Math_min_def Let_def)

text \<open>
  An instance of C5 as amended: the worked example parsed by the HDFC parser; an oracle that
  reports 0.95 for a category of the catalog to \<open>batchCategorize\<close>; and an oracle that
  reports 0.9 for a category outside the catalog to \<open>categorizeTransaction\<close>.
\<close>

theorem confidence_in_unit_interval_witness:
  "map_option confidence (transaction (bank_parser example_env example_body [] None HDFC)) = Some 1
   \<and> (0 :: real) \<le> 1
   \<and> map_option c_confidence
        (batchCategorize example_catalog (example_cat_oracle (JStr (str ''c1'')) (JNum (Fin (19 / 20))))
           example_txs (Some (str ''sk'')) (JStr (str ''t1''))) = Some (JNum (Fin (19 / 20)))
   \<and> in_unit (JNum (Fin (19 / 20)))
   \<and> c_confidence (categorizeTransaction example_catalog
          (example_single_oracle (JStr (str ''zz'')) (JNum (Fin (9 / 10)))) (str ''ZEPTO'') (Fin 16900)
          DEBIT (Some (str ''sk''))) = JNum (Fin (1 / 2))
   \<and> in_unit (JNum (Fin (1 / 2)))"
proof -
  let ?orc = "example_cat_oracle (JStr (str ''c1'')) (JNum (Fin (19 / 20)))"
  let ?sorc = "example_single_oracle (JStr (str ''zz'')) (JNum (Fin (9 / 10)))"
  let ?key = "Some (str ''sk'')"
  have p: "\<exists>t. transaction (bank_parser example_env example_body [] None HDFC) = Some t
              \<and> confidence t = 1"
    using example_confidence
    by (simp add: bank_parser_def example_parse parse_success_def example_extractDate)
  have o: "\<forall>j rs r. \<not> falsy_str ?key \<and> CAT_BATCH_SIZE * j < length example_txs
                 \<and> ?orc j (take CAT_BATCH_SIZE (drop (CAT_BATCH_SIZE * j) example_txs)) = Content rs
                 \<and> r \<in> set (records_read rs) \<and> valid_category example_catalog (r_categoryId r)
                 \<and> truthy (r_confidence r)
              \<longrightarrow> in_unit (r_confidence r)"
    by (auto simp: example_cat_oracle_def reply_record_def)
  have s: "\<forall>p. \<not> falsy_str ?key \<and> ?sorc (str ''ZEPTO'') (Fin 16900) DEBIT = Content p
             \<longrightarrow> (if valid_category example_catalog (r_categoryId p)
                  then truthy (r_confidence p) \<longrightarrow> in_unit (r_confidence p)
                  else \<not> negative (toNumber (r_confidence p)))"
    by (auto simp: example_single_oracle_def example_invalid negative_def)
  have b: "batchCategorize example_catalog ?orc example_txs ?key (JStr (str ''t1''))
      = Some (categorize_result example_catalog example_txs (reply_record (JStr (str ''c1'')) (JNum (Fin (19 / 20)))))"
    by (rule example_batch)
  have c: "c_confidence (categorize_result example_catalog example_txs
               (reply_record (JStr (str ''c1'')) (JNum (Fin (19 / 20))))) = JNum (Fin (19 / 20))"
    by (simp add: categorize_result_def reply_record_def example_valid or_else_def Let_def)
  have t: "c_confidence (categorizeTransaction example_catalog ?sorc (str ''ZEPTO'') (Fin 16900) DEBIT ?key)
             = JNum (Fin (1 / 2))"
    by (simp add: categorizeTransaction_def example_single_oracle_def example_invalid example_key
          or_else_def Math_min_def Let_def)
  from confidence_in_unit_interval [of example_env example_body "[]" None HDFC ?key example_txs ?orc
      example_catalog ?sorc "str ''ZEPTO''" "Fin 16900" DEBIT] p o s b c t
  show ?thesis by auto
qed

end
